theory Spec2Isabelle
  imports Main "HOL-Library.Word"
begin

section \<open>Result codes\<close>

text \<open>
  The \<open>nsresult\<close> codes that \<open>nsDocumentEncoder.cpp\<close> returns itself, and
  \<open>NS_ERROR_EXTERNAL\<close> for any failure code handed back by a collaborator (the
  content serializer, the output stream, the range). Collaborators answer \<open>NS_OK\<close>
  or a failure code.
\<close>

datatype nsresult =
    NS_OK
  | NS_ERROR_FAILURE
  | NS_ERROR_NULL_POINTER
  | NS_ERROR_NOT_INITIALIZED
  | NS_ERROR_NOT_IMPLEMENTED
  | NS_ERROR_UCONV_NOCONV
  | NS_ERROR_OUT_OF_MEMORY
  | NS_ERROR_UNEXPECTED
  | NS_ERROR_INVALID_ARG
  | NS_ERROR_EXTERNAL nat

definition NS_FAILED :: "nsresult \<Rightarrow> bool" where
  "NS_FAILED rv = (rv \<noteq> NS_OK)"

definition NS_SUCCEEDED :: "nsresult \<Rightarrow> bool" where
  "NS_SUCCEEDED rv = (rv = NS_OK)"

section \<open>TextStreamer\<close>

type_synonym char16 = "16 word"
type_synonym byte = "8 word"

text \<open>
  What \<open>Encoder::EncodeFromUTF16\<close> and \<open>EncodeFromUTF16WithoutReplacement\<close>
  report: \<open>kInputEmpty\<close>, \<open>kOutputFull\<close>, or (only without replacement) any other
  value, which stands for an unmappable character.
\<close>

datatype encoder_result = kInputEmpty | kOutputFull | kUnmappable

text \<open>
  The collaborators of a \<open>TextStreamer\<close>, none of them under \<open>src/\<close>, taken as
  parameters. The encoder is called with its internal state, the source span
  and the capacity of the destination span; it answers the result, the number of code
  units read, the bytes written and its new state. \<open>streamWrite\<close> is the answer of
  \<open>mStream->Write\<close> to the latest call, as a function of all chunks written so
  far (the latest one last).
\<close>

record streamer_env =
  EncodeFromUTF16WithoutReplacement ::
    "nat \<Rightarrow> char16 list \<Rightarrow> nat \<Rightarrow> encoder_result \<times> nat \<times> byte list \<times> nat"
  EncodeFromUTF16 ::
    "nat \<Rightarrow> char16 list \<Rightarrow> nat \<Rightarrow> encoder_result \<times> nat \<times> byte list \<times> nat"
  streamWrite :: "byte list list \<Rightarrow> nsresult"

record TextStreamer =
  mIsPlainText :: bool
  mUnicodeEncoder :: nat
  mStreamWrites :: "byte list list"
  mOutputBuffer :: "char16 list"

definition kMaxLengthBeforeFlush :: nat where
  "kMaxLengthBeforeFlush = 1024"

definition kEncoderBufferSizeInBytes :: nat where
  "kEncoderBufferSizeInBytes = 4096"

text \<open>
  The body of the \<open>for (;;)\<close> loop of \<open>EncodeAndWrite\<close>. The loop has no bound of
  its own: it ends when the stream fails or the encoder reports \<open>kInputEmpty\<close>, so
  not returning is the value \<open>None\<close>.
\<close>

partial_function (option) EncodeAndWrite_loop ::
  "streamer_env \<Rightarrow> bool \<Rightarrow> char16 list \<Rightarrow> nat \<Rightarrow> byte list list
     \<Rightarrow> (nsresult \<times> nat \<times> byte list list) option" where
  "EncodeAndWrite_loop E plain src es ws =
     (let dstlen = kEncoderBufferSizeInBytes - 1;
          (result, nread, written, es') =
             (if plain then EncodeFromUTF16WithoutReplacement E es src dstlen
              else EncodeFromUTF16 E es src dstlen);
          written' =
             (if plain \<and> result \<noteq> kInputEmpty \<and> result \<noteq> kOutputFull
              then written @ [63] else written);
          src' = drop nread src;
          ws' = ws @ [written'];
          rv = streamWrite E ws'
      in if NS_FAILED rv then Some (rv, es', ws')
         else if result = kInputEmpty then Some (NS_OK, es', ws')
         else EncodeAndWrite_loop E plain src' es' ws')"

declare EncodeAndWrite_loop.simps [code]

definition EncodeAndWrite ::
  "streamer_env \<Rightarrow> TextStreamer \<Rightarrow> (nsresult \<times> TextStreamer) option" where
  "EncodeAndWrite E t =
     (if mOutputBuffer t = [] then Some (NS_OK, t)
      else
        (case EncodeAndWrite_loop E (mIsPlainText t) (mOutputBuffer t)
                (mUnicodeEncoder t) (mStreamWrites t) of
           None \<Rightarrow> None
         | Some (rv, es', ws') \<Rightarrow>
             Some (rv, t\<lparr>mUnicodeEncoder := es', mStreamWrites := ws'\<rparr>)))"

definition EncodeAndWriteAndTruncate ::
  "streamer_env \<Rightarrow> TextStreamer \<Rightarrow> (nsresult \<times> TextStreamer) option" where
  "EncodeAndWriteAndTruncate E t =
     (case EncodeAndWrite E t of
        None \<Rightarrow> None
      | Some (rv, t') \<Rightarrow> Some (rv, t'\<lparr>mOutputBuffer := []\<rparr>))"

definition FlushIfStringLongEnough ::
  "streamer_env \<Rightarrow> TextStreamer \<Rightarrow> (nsresult \<times> TextStreamer) option" where
  "FlushIfStringLongEnough E t =
     (if length (mOutputBuffer t) > kMaxLengthBeforeFlush
      then EncodeAndWriteAndTruncate E t
      else Some (NS_OK, t))"

definition ForceFlush ::
  "streamer_env \<Rightarrow> TextStreamer \<Rightarrow> (nsresult \<times> TextStreamer) option" where
  "ForceFlush E t = EncodeAndWriteAndTruncate E t"

text \<open>
  The encoders of the host deliver the encoding of a text in chunks. \<open>whole\<close> is the
  encoding of a source span from a state of the encoder: what a call writes on the
  destination span that \<open>EncodeAndWrite\<close> hands it (with the question mark put for
  an unmappable character), followed by the encoding of the rest of the span, is the
  encoding of the span; a call that does not report \<open>kInputEmpty\<close> has read at
  least one code unit.
\<close>

definition encodes_text :: "streamer_env \<Rightarrow> bool \<Rightarrow> (nat \<Rightarrow> char16 list \<Rightarrow> byte list) \<Rightarrow> bool" where
  "encodes_text E plain whole =
     (\<forall>es src.
        (let call = (if plain
                     then EncodeFromUTF16WithoutReplacement E es src (kEncoderBufferSizeInBytes - 1)
                     else EncodeFromUTF16 E es src (kEncoderBufferSizeInBytes - 1));
             result = fst call;
             nread = fst (snd call);
             written = fst (snd (snd call));
             es' = snd (snd (snd call));
             chunk = (if plain \<and> result \<noteq> kInputEmpty \<and> result \<noteq> kOutputFull
                      then written @ [63] else written)
         in (result = kInputEmpty \<and> whole es src = chunk)
            \<or> (result \<noteq> kInputEmpty \<and> 0 < nread \<and> src \<noteq> []
                 \<and> whole es src = chunk @ whole es' (drop nread src))))"

text \<open>
  A concrete streamer for evaluation: an encoder that keeps the low byte of every code
  unit and fills the destination span, and a stream whose every write fails.
\<close>

definition low_byte_encoder ::
  "nat \<Rightarrow> char16 list \<Rightarrow> nat \<Rightarrow> encoder_result \<times> nat \<times> byte list \<times> nat" where
  "low_byte_encoder es src cap =
     (if length src \<le> cap then (kInputEmpty, length src, map ucast src, es)
      else (kOutputFull, cap, map ucast (take cap src), es))"

definition failing_stream_env :: streamer_env where
  "failing_stream_env =
     \<lparr>EncodeFromUTF16WithoutReplacement = low_byte_encoder,
      EncodeFromUTF16 = low_byte_encoder,
      streamWrite = (\<lambda>ws. NS_ERROR_EXTERNAL 1)\<rparr>"

definition long_buffer_streamer :: TextStreamer where
  "long_buffer_streamer =
     \<lparr>mIsPlainText = True, mUnicodeEncoder = 0, mStreamWrites = [],
      mOutputBuffer = replicate 1025 65\<rparr>"

definition huge_buffer_streamer :: TextStreamer where
  "huge_buffer_streamer =
     \<lparr>mIsPlainText = False, mUnicodeEncoder = 0, mStreamWrites = [],
      mOutputBuffer = replicate 5000 65\<rparr>"

section \<open>The host tree\<close>

text \<open>
  The document tree is owned by the host and is not part of \<open>src/\<close>; the encoder only
  reads it. Nodes are handles, a null pointer is \<open>None\<close>. The record lists what
  the encoder asks of a node: its type and HTML name, its place in the light tree and
  in the flattened tree, and what layout and editing report about it.
\<close>

type_synonym node = nat

datatype node_type =
    ELEMENT_NODE
  | ATTRIBUTE_NODE
  | TEXT_NODE
  | CDATA_SECTION_NODE
  | PROCESSING_INSTRUCTION_NODE
  | COMMENT_NODE
  | DOCUMENT_NODE
  | DOCUMENT_TYPE_NODE
  | DOCUMENT_FRAGMENT_NODE

record dom =
  NodeType :: "node \<Rightarrow> node_type"
  htmlName :: "node \<Rightarrow> string option"
  isShadowRoot :: "node \<Rightarrow> bool"
  GetParentNode :: "node \<Rightarrow> node option"
  childNodes :: "node \<Rightarrow> node list"
  GetHost :: "node \<Rightarrow> node option"
  GetShadowRoot :: "node \<Rightarrow> node option"
  GetShadowRootForSelection :: "node \<Rightarrow> node option"
  templateContent :: "node \<Rightarrow> node option"
  AssignedNodes :: "node \<Rightarrow> node list"
  GetFlattenedTreeParentNodeForSelection :: "node \<Rightarrow> node option"
  flatChildNodes :: "node \<Rightarrow> node list"
  textData :: "node \<Rightarrow> char16 list"
  GetPrimaryFrame :: "node \<Rightarrow> bool"
  IsDisplayContents :: "node \<Rightarrow> bool"
  frameStyleIsVisible :: "node \<Rightarrow> bool"
  IsHiddenByContentVisibilityOnAnyAncestor :: "node \<Rightarrow> bool"
  frameIsSelectable :: "node \<Rightarrow> bool"
  IsInvisibleBreak :: "node \<Rightarrow> bool"
  IsEditable :: "node \<Rightarrow> bool"
  IsEditingHost :: "node \<Rightarrow> bool"
  IsPaddingForEmptyLastLine :: "node \<Rightarrow> bool"
  IsBlock :: "node \<Rightarrow> bool"

definition IsElement :: "dom \<Rightarrow> node \<Rightarrow> bool" where
  "IsElement D n = (NodeType D n = ELEMENT_NODE)"

definition IsText :: "dom \<Rightarrow> node \<Rightarrow> bool" where
  "IsText D n = (NodeType D n = TEXT_NODE \<or> NodeType D n = CDATA_SECTION_NODE)"

definition IsDocumentFragment :: "dom \<Rightarrow> node \<Rightarrow> bool" where
  "IsDocumentFragment D n = (NodeType D n = DOCUMENT_FRAGMENT_NODE)"

text \<open>\<open>nsIContent\<close>: every node but a document and an attribute.\<close>

definition IsContent :: "dom \<Rightarrow> node \<Rightarrow> bool" where
  "IsContent D n = (NodeType D n \<noteq> DOCUMENT_NODE \<and> NodeType D n \<noteq> ATTRIBUTE_NODE)"

definition IsHTMLElement :: "dom \<Rightarrow> node \<Rightarrow> string \<Rightarrow> bool" where
  "IsHTMLElement D n name = (IsElement D n \<and> htmlName D n = Some name)"

definition IsAnyOfHTMLElements :: "dom \<Rightarrow> node \<Rightarrow> string list \<Rightarrow> bool" where
  "IsAnyOfHTMLElements D n names = (\<exists>name \<in> set names. IsHTMLElement D n name)"

text \<open>\<open>nsIContent::FromNodeOrNull\<close>.\<close>

definition FromNodeOrNull :: "dom \<Rightarrow> node option \<Rightarrow> node option" where
  "FromNodeOrNull D n =
     (case n of None \<Rightarrow> None | Some x \<Rightarrow> if IsContent D x then Some x else None)"

text \<open>\<open>GetParent\<close> answers the parent only when it is content.\<close>

definition GetParent :: "dom \<Rightarrow> node \<Rightarrow> node option" where
  "GetParent D n = FromNodeOrNull D (GetParentNode D n)"

definition GetParentElement :: "dom \<Rightarrow> node \<Rightarrow> node option" where
  "GetParentElement D n =
     (case GetParentNode D n of
        None \<Rightarrow> None
      | Some p \<Rightarrow> if IsElement D p then Some p else None)"

definition GetChildCount :: "dom \<Rightarrow> node \<Rightarrow> nat" where
  "GetChildCount D n = length (childNodes D n)"

definition HasChildNodes :: "dom \<Rightarrow> node \<Rightarrow> bool" where
  "HasChildNodes D n = (childNodes D n \<noteq> [])"

definition GetChildAt_Deprecated :: "dom \<Rightarrow> node \<Rightarrow> nat \<Rightarrow> node option" where
  "GetChildAt_Deprecated D n i =
     (if i < length (childNodes D n) then Some (childNodes D n ! i) else None)"

definition GetChildAtInFlatTree :: "dom \<Rightarrow> node \<Rightarrow> nat \<Rightarrow> node option" where
  "GetChildAtInFlatTree D n i =
     (if i < length (flatChildNodes D n) then Some (flatChildNodes D n ! i) else None)"

fun index_of :: "'a list \<Rightarrow> 'a \<Rightarrow> nat option" where
  "index_of [] x = None"
| "index_of (y # ys) x =
     (if y = x then Some 0 else map_option Suc (index_of ys x))"

definition ComputeIndexOf :: "dom \<Rightarrow> node \<Rightarrow> node \<Rightarrow> nat option" where
  "ComputeIndexOf D parent child = index_of (childNodes D parent) child"

definition ComputeFlatTreeIndexOf :: "dom \<Rightarrow> node \<Rightarrow> node \<Rightarrow> nat option" where
  "ComputeFlatTreeIndexOf D parent child = index_of (flatChildNodes D parent) child"

fun element_after :: "'a list \<Rightarrow> 'a \<Rightarrow> 'a option" where
  "element_after [] x = None"
| "element_after [y] x = None"
| "element_after (y # z # zs) x = (if y = x then Some z else element_after (z # zs) x)"

definition GetNextSibling :: "dom \<Rightarrow> node \<Rightarrow> node option" where
  "GetNextSibling D n =
     (case GetParentNode D n of
        None \<Rightarrow> None
      | Some p \<Rightarrow> element_after (childNodes D p) n)"

definition GetPreviousSibling :: "dom \<Rightarrow> node \<Rightarrow> node option" where
  "GetPreviousSibling D n =
     (case GetParentNode D n of
        None \<Rightarrow> None
      | Some p \<Rightarrow> element_after (rev (childNodes D p)) n)"

text \<open>
  \<open>GetFirstChildOfTemplateOrNode\<close> starts at the content fragment of a
  \<open>template\<close> element and at the node itself otherwise; the siblings that follow
  the first child are the rest of that child list.
\<close>

definition childrenOfTemplateOrNode :: "dom \<Rightarrow> node \<Rightarrow> node list" where
  "childrenOfTemplateOrNode D n =
     (case templateContent D n of
        Some frag \<Rightarrow> childNodes D frag
      | None \<Rightarrow> childNodes D n)"

definition GetFirstChildOfTemplateOrNode :: "dom \<Rightarrow> node \<Rightarrow> node option" where
  "GetFirstChildOfTemplateOrNode D n =
     (case childrenOfTemplateOrNode D n of [] \<Rightarrow> None | c # _ \<Rightarrow> Some c)"

definition IsSlot :: "dom \<Rightarrow> node \<Rightarrow> bool" where
  "IsSlot D n = IsHTMLElement D n ''slot''"

section \<open>Configuration and collaborators\<close>

datatype encoder_flag =
    SkipInvisibleContent
  | OutputPreformatted
  | OutputDropInvisibleBreak
  | OutputAbsoluteLinks
  | OutputNoScriptContent
  | OutputDontRewriteEncodingDeclaration
  | AllowCrossShadowBoundary
  | RequiresReinitAfterOutput

text \<open>
  The calls the encoder makes on its \<open>nsIContentSerializer\<close>. The serializer is
  not under \<open>src/\<close>: the model records the calls in order, and what the serializer
  answers to the latest call is a parameter, a function of all calls so far.
\<close>

datatype ser_call =
    SerializerInit "encoder_flag set" nat bool bool
  | AppendDocumentStart "node option"
  | AppendElementStart node node
  | AppendElementEnd node node
  | AppendText node int int
  | AppendCDATASection node int int
  | AppendProcessingInstruction node int int
  | AppendComment node int int
  | AppendDoctype node
  | ScanElementForPreformat node
  | ForgetElementForPreformat node
  | FlushAndFinish
  | Finish

record RawRangeBoundary =
  boundaryContainer :: "node option"
  boundaryOffset :: "32 word"
  boundaryIsFlat :: bool

record nsRange =
  mIsPositioned :: bool
  mStart :: RawRangeBoundary
  mEnd :: RawRangeBoundary
  mCrossShadowBoundaryRange :: "(RawRangeBoundary \<times> RawRangeBoundary) option"

text \<open>
  The collaborators that are not under \<open>src/\<close> are parameters. Of the range:
  \<open>SetStart\<close> and \<open>SetEnd\<close> answer a result and the range they leave, given the
  boundary and whether crossing shadow boundaries is allowed; the conversion of a
  boundary into the flat tree is given whether the range is collapsed and whether the
  boundary is the start.
\<close>

record env =
  tree :: dom
  serializerAnswer :: "ser_call list \<Rightarrow> nsresult"
  GetOutputLength :: "ser_call list \<Rightarrow> nsresult \<times> 32 word"
  needsPreformatScanning :: "ser_call list \<Rightarrow> bool"
  serializerOutput :: "ser_call list \<Rightarrow> char16 list"
  FixupNode :: "node \<Rightarrow> node option \<times> bool"
  streamerEnv :: streamer_env
  createSerializer :: "string \<Rightarrow> bool"
  stringBufferAlloc :: bool
  outputBufferIsReusable :: "ser_call list \<Rightarrow> bool"
  isHTMLCopyEncoder :: bool
  dom_shadowdom_selection_across_boundary_enabled :: bool
  dom_serializer_includeCommonAncestor_enabled :: bool
  GetClosestCommonInclusiveAncestor :: "nsRange \<Rightarrow> bool \<Rightarrow> node option"
  GetInclusiveAncestors :: "node option \<Rightarrow> node list"
  GetInclusiveAncestorsAndOffsets :: "node \<Rightarrow> 32 word \<Rightarrow> (node \<times> 32 word option) list"
  GetFlattenedTreeAncestorsAndOffsets :: "node \<Rightarrow> 32 word \<Rightarrow> (node \<times> 32 word option) list"
  rangeSetStart :: "nsRange \<Rightarrow> RawRangeBoundary \<Rightarrow> bool \<Rightarrow> nsresult \<times> nsRange"
  rangeSetEnd :: "nsRange \<Rightarrow> RawRangeBoundary \<Rightarrow> bool \<Rightarrow> nsresult \<times> nsRange"
  AsRangeBoundaryInFlatTree :: "RawRangeBoundary \<Rightarrow> bool \<Rightarrow> bool \<Rightarrow> RawRangeBoundary"
  AsRangeBoundaryInDOMTree :: "RawRangeBoundary \<Rightarrow> RawRangeBoundary"

section \<open>The encoder's state\<close>

record EncodingScope =
  mSelection :: "nsRange list option"
  mRange :: "nsRange option"
  mNode :: "node option"
  mNodeIsContainer :: bool

definition IsLimited :: "EncodingScope \<Rightarrow> bool" where
  "IsLimited sc = (mSelection sc \<noteq> None \<or> mRange sc \<noteq> None \<or> mNode sc \<noteq> None)"

definition emptyScope :: EncodingScope where
  "emptyScope = \<lparr>mSelection = None, mRange = None, mNode = None, mNodeIsContainer = False\<rparr>"

text \<open>
  The members of \<open>nsDocumentEncoder\<close>, with those of its \<open>RangeContextSerializer\<close>
  and \<open>RangeSerializer\<close> and the one of \<open>nsHTMLCopyEncoder\<close>. \<open>serializerCalls\<close>
  is the history of the serializer that \<open>mSerializer\<close> points to.
\<close>

record encoder =
  mDocument :: "node option"
  mEncodingScope :: EncodingScope
  mSerializer :: bool
  serializerCalls :: "ser_call list"
  mTextStreamer :: "TextStreamer option"
  mNodeFixup :: bool
  mMimeType :: string
  mEncoding :: bool
  mFlags :: "encoder_flag set"
  mWrapColumn :: nat
  mNeedsPreformatScanning :: bool
  mIsCopying :: bool
  mCachedBuffer :: bool
  mDisableContextSerialize :: bool
  mRangeContexts :: "node list list"
  mClosestCommonInclusiveAncestorOfRange :: "node option"
  mCommonInclusiveAncestors :: "node list"
  mContextInfoDepthStart :: nat
  mContextInfoDepthEnd :: nat
  mInclusiveAncestorsOfStart :: "node list"
  mInclusiveAncestorsOffsetsOfStart :: "32 word option list"
  mInclusiveAncestorsOfEnd :: "node list"
  mInclusiveAncestorsOffsetsOfEnd :: "32 word option list"
  mStartRootIndex :: int
  mEndRootIndex :: int
  mHaltRangeHint :: bool
  mAllowCrossShadowBoundary :: bool
  mIsTextWidget :: bool

text \<open>
  How a call ends: it returns a result code and the new state, or it stops the process
  (a release assertion, an index outside an array). A call that never returns is
  \<open>None\<close>.
\<close>

datatype outcome = Returns nsresult encoder | Crashes

definition returns :: "nsresult \<times> encoder \<Rightarrow> outcome option" where
  "returns p = Some (Returns (fst p) (snd p))"

text \<open>\<open>rv = ...; NS_ENSURE_SUCCESS(rv, rv);\<close> and what follows it.\<close>

definition ensure_success ::
  "outcome option \<Rightarrow> (encoder \<Rightarrow> outcome option) \<Rightarrow> outcome option" where
  "ensure_success m k =
     (case m of
        None \<Rightarrow> None
      | Some Crashes \<Rightarrow> Some Crashes
      | Some (Returns rv s) \<Rightarrow> if NS_FAILED rv then Some (Returns rv s) else k s)"

text \<open>A call whose result code is dropped, and what follows it.\<close>

definition ignoring_result ::
  "outcome option \<Rightarrow> (encoder \<Rightarrow> outcome option) \<Rightarrow> outcome option" where
  "ignoring_result m k =
     (case m of
        None \<Rightarrow> None
      | Some Crashes \<Rightarrow> Some Crashes
      | Some (Returns rv s) \<Rightarrow> k s)"

definition serializer_call :: "env \<Rightarrow> ser_call \<Rightarrow> encoder \<Rightarrow> nsresult \<times> encoder" where
  "serializer_call E c s =
     (let h = serializerCalls s @ [c]
      in (serializerAnswer E h, s\<lparr>serializerCalls := h\<rparr>))"

section \<open>NodeSerializer\<close>

definition GetAllowRangeCrossShadowBoundary :: "encoder_flag set \<Rightarrow> bool" where
  "GetAllowRangeCrossShadowBoundary flags = (AllowCrossShadowBoundary \<in> flags)"

text \<open>
  \<open>ShadowDOMSelectionHelpers::GetShadowRoot\<close> (not under \<open>src/\<close>): the shadow
  root for selection when crossing shadow boundaries is allowed and the preference is
  on, no shadow root otherwise.
\<close>

definition SelectionGetShadowRoot :: "env \<Rightarrow> node \<Rightarrow> bool \<Rightarrow> node option" where
  "SelectionGetShadowRoot E n allow =
     (if dom_shadowdom_selection_across_boundary_enabled E \<and> allow
      then GetShadowRootForSelection (tree E) n else None)"

text \<open>
  \<open>IsInvisibleNodeAndShouldBeSkipped\<close>. The host of a shadow root is dereferenced
  unchecked; a shadow root without a host is read as itself.
\<close>

definition IsInvisibleNodeAndShouldBeSkipped :: "dom \<Rightarrow> node \<Rightarrow> encoder_flag set \<Rightarrow> bool" where
  "IsInvisibleNodeAndShouldBeSkipped D aNode aFlags =
     (if SkipInvisibleContent \<in> aFlags then
        (let n = (if isShadowRoot D aNode
                  then (case GetHost D aNode of Some h \<Rightarrow> h | None \<Rightarrow> aNode)
                  else aNode)
         in if IsContent D n then
              (if \<not> GetPrimaryFrame D n then
                 (if IsElement D n \<and> IsDisplayContents D n then False
                  else if IsText D n then False
                  else if IsHTMLElement D n ''rp'' then False
                  else True)
               else if IsText D n \<and>
                       (\<not> frameStyleIsVisible D n \<or> IsHiddenByContentVisibilityOnAnyAncestor D n)
               then True
               else False)
            else False)
      else False)"

text \<open>
  \<open>FixupNodeDeterminer\<close>: the fixup node (if any) and whether the children of the
  fixup node are to be serialized.
\<close>

definition FixupNodeDeterminer ::
  "env \<Rightarrow> encoder \<Rightarrow> node option \<Rightarrow> node \<Rightarrow> node option \<times> bool" where
  "FixupNodeDeterminer E s aFixupNode aOriginalNode =
     (if mNodeFixup s then
        (case aFixupNode of
           Some f \<Rightarrow> (Some f, False)
         | None \<Rightarrow> FixupNode E aOriginalNode)
      else (None, False))"

definition GetFixupNodeFallBackToOriginalNode :: "node option \<times> bool \<Rightarrow> node \<Rightarrow> node" where
  "GetFixupNodeFallBackToOriginalNode fd aOriginalNode =
     (case fst fd of Some f \<Rightarrow> f | None \<Rightarrow> aOriginalNode)"

definition preformatScan :: "env \<Rightarrow> (node \<Rightarrow> ser_call) \<Rightarrow> node \<Rightarrow> encoder \<Rightarrow> encoder" where
  "preformatScan E mk aOriginalNode s =
     (if mNeedsPreformatScanning s then
        (if IsElement (tree E) aOriginalNode
         then snd (serializer_call E (mk aOriginalNode) s)
         else if IsText (tree E) aOriginalNode then
           (case GetParent (tree E) aOriginalNode of
              None \<Rightarrow> s
            | Some p \<Rightarrow>
                if IsElement (tree E) p then snd (serializer_call E (mk p) s) else s)
         else s)
      else s)"

definition SerializeNodeStart ::
  "env \<Rightarrow> node \<Rightarrow> int \<Rightarrow> int \<Rightarrow> node option \<Rightarrow> encoder \<Rightarrow> nsresult \<times> encoder" where
  "SerializeNodeStart E aOriginalNode aStartOffset aEndOffset aFixupNode s0 =
     (let s = preformatScan E ScanElementForPreformat aOriginalNode s0
      in if IsInvisibleNodeAndShouldBeSkipped (tree E) aOriginalNode (mFlags s) then (NS_OK, s)
         else
           (let n = GetFixupNodeFallBackToOriginalNode
                      (FixupNodeDeterminer E s aFixupNode aOriginalNode) aOriginalNode
            in if IsElement (tree E) n then
                 (if (OutputPreformatted \<in> mFlags s \<or> OutputDropInvisibleBreak \<in> mFlags s)
                      \<and> IsInvisibleBreak (tree E) n
                  then (NS_OK, s)
                  else serializer_call E (AppendElementStart n aOriginalNode) s)
               else
                 (case NodeType (tree E) n of
                    TEXT_NODE \<Rightarrow> serializer_call E (AppendText n aStartOffset aEndOffset) s
                  | CDATA_SECTION_NODE \<Rightarrow>
                      serializer_call E (AppendCDATASection n aStartOffset aEndOffset) s
                  | PROCESSING_INSTRUCTION_NODE \<Rightarrow>
                      serializer_call E (AppendProcessingInstruction n aStartOffset aEndOffset) s
                  | COMMENT_NODE \<Rightarrow>
                      serializer_call E (AppendComment n aStartOffset aEndOffset) s
                  | DOCUMENT_TYPE_NODE \<Rightarrow> serializer_call E (AppendDoctype n) s
                  | _ \<Rightarrow> (NS_OK, s))))"

definition SerializeNodeEnd ::
  "env \<Rightarrow> node \<Rightarrow> node option \<Rightarrow> encoder \<Rightarrow> nsresult \<times> encoder" where
  "SerializeNodeEnd E aOriginalNode aFixupNode s0 =
     (let s = preformatScan E ForgetElementForPreformat aOriginalNode s0
      in if IsInvisibleNodeAndShouldBeSkipped (tree E) aOriginalNode (mFlags s) then (NS_OK, s)
         else
           (let n = GetFixupNodeFallBackToOriginalNode
                      (FixupNodeDeterminer E s aFixupNode aOriginalNode) aOriginalNode
            in if IsElement (tree E) n
               then serializer_call E (AppendElementEnd n aOriginalNode) s
               else (NS_OK, s)))"

text \<open>\<open>mTextStreamer->FlushIfStringLongEnough()\<close> on the encoder's streamer.\<close>

definition streamerFlushIfStringLongEnough :: "env \<Rightarrow> encoder \<Rightarrow> outcome option" where
  "streamerFlushIfStringLongEnough E s =
     (case mTextStreamer s of
        None \<Rightarrow> Some (Returns NS_OK s)
      | Some t \<Rightarrow>
          (case FlushIfStringLongEnough (streamerEnv E) t of
             None \<Rightarrow> None
           | Some (rv, t') \<Rightarrow> Some (Returns rv (s\<lparr>mTextStreamer := Some t'\<rparr>))))"

text \<open>A loop over nodes that leaves at the first failure.\<close>

fun for_each_node ::
  "node list \<Rightarrow> (node \<Rightarrow> encoder \<Rightarrow> outcome option) \<Rightarrow> encoder \<Rightarrow> outcome option" where
  "for_each_node [] body s = Some (Returns NS_OK s)"
| "for_each_node (c # cs) body s =
     ensure_success (body c s) (for_each_node cs body)"

text \<open>The 32-bit signed reading of \<open>aMaxLength - outputLength\<close>.\<close>

definition int32_of :: "32 word \<Rightarrow> int" where
  "int32_of w = sint w"

text \<open>
  \<open>SerializeToStringRecursive\<close>. The first argument bounds the depth of the
  recursion; with none left the call does not return. \<open>aSerializeRoot\<close> is
  \<open>True\<close> for \<open>SerializeRoot::eYes\<close>.
\<close>

fun SerializeToStringRecursive ::
  "env \<Rightarrow> nat \<Rightarrow> node option \<Rightarrow> bool \<Rightarrow> 32 word \<Rightarrow> encoder \<Rightarrow> outcome option" where
  "SerializeToStringRecursive E 0 aNode aSerializeRoot aMaxLength s = None"
| "SerializeToStringRecursive E (Suc fuel) aNode aSerializeRoot aMaxLength s =
     (let (rv, outputLength) = GetOutputLength E (serializerCalls s)
      in if NS_FAILED rv then Some (Returns rv s)
         else if aMaxLength > 0 \<and> outputLength \<ge> aMaxLength then Some (Returns NS_OK s)
         else
           (case aNode of
              None \<Rightarrow> Some (Returns NS_ERROR_NULL_POINTER s)
            | Some n \<Rightarrow>
                if IsInvisibleNodeAndShouldBeSkipped (tree E) n (mFlags s)
                then Some (Returns NS_OK s)
                else
                  (let fd = FixupNodeDeterminer E s None n;
                       maybeFixedNode = GetFixupNodeFallBackToOriginalNode fd n;
                       serializeRoot =
                         (if SkipInvisibleContent \<in> mFlags s \<and> IsContent (tree E) n
                             \<and> GetPrimaryFrame (tree E) n \<and> \<not> frameIsSelectable (tree E) n
                          then False else aSerializeRoot);
                       endOffset =
                         (if aMaxLength > 0 then int32_of (aMaxLength - outputLength) else - 1);
                       shadowRoot =
                         SelectionGetShadowRoot E n (GetAllowRangeCrossShadowBoundary (mFlags s));
                       childrenOf = (if snd fd then maybeFixedNode else n);
                       kids =
                         (if GetAllowRangeCrossShadowBoundary (mFlags s) \<and> IsSlot (tree E) childrenOf
                          then AssignedNodes (tree E) childrenOf
                          else childrenOfTemplateOrNode (tree E) childrenOf)
                   in ensure_success
                        (if serializeRoot
                         then returns (SerializeNodeStart E n 0 endOffset (Some maybeFixedNode) s)
                         else Some (Returns NS_OK s))
                        (\<lambda>s1.
                           ignoring_result
                             (case shadowRoot of
                                None \<Rightarrow> Some (Returns NS_OK s1)
                              | Some sr \<Rightarrow>
                                  SerializeToStringRecursive E fuel (Some sr) serializeRoot
                                    aMaxLength s1)
                             (\<lambda>s2.
                                ensure_success
                                  (if shadowRoot = None
                                   then for_each_node kids
                                          (\<lambda>child. SerializeToStringRecursive E fuel (Some child)
                                                      True aMaxLength) s2
                                   else Some (Returns NS_OK s2))
                                  (\<lambda>s3.
                                     ensure_success
                                       (if serializeRoot
                                        then returns (SerializeNodeEnd E n (Some maybeFixedNode) s3)
                                        else Some (Returns NS_OK s3))
                                       (streamerFlushIfStringLongEnough E)))))))"

text \<open>
  \<open>SerializeToStringIterative\<close>: the outer \<open>while (node)\<close> and the inner
  \<open>while (!node && current && current != aNode)\<close>. Every turn of either loop
  takes one unit of the bound.
\<close>

definition templateHostOrSelf :: "dom \<Rightarrow> node \<Rightarrow> node \<Rightarrow> node" where
  "templateHostOrSelf D aNode current =
     (if current \<noteq> aNode \<and> IsDocumentFragment D current then
        (case GetHost D current of
           None \<Rightarrow> current
         | Some host \<Rightarrow> if IsHTMLElement D host ''template'' then host else current)
      else current)"

fun SerializeToStringIterative_outer ::
  "env \<Rightarrow> nat \<Rightarrow> node \<Rightarrow> node option \<Rightarrow> encoder \<Rightarrow> outcome option"
and SerializeToStringIterative_inner ::
  "env \<Rightarrow> nat \<Rightarrow> node \<Rightarrow> node option \<Rightarrow> node option \<Rightarrow> encoder \<Rightarrow> outcome option" where
  "SerializeToStringIterative_outer E 0 aNode node s = None"
| "SerializeToStringIterative_outer E (Suc fuel) aNode node s =
     (case node of
        None \<Rightarrow> Some (Returns NS_OK s)
      | Some current \<Rightarrow>
          ensure_success (returns (SerializeNodeStart E current 0 (- 1) (Some current) s))
            (SerializeToStringIterative_inner E fuel aNode
               (GetFirstChildOfTemplateOrNode (tree E) current) (Some current)))"
| "SerializeToStringIterative_inner E 0 aNode node current s = None"
| "SerializeToStringIterative_inner E (Suc fuel) aNode node current s =
     (case current of
        None \<Rightarrow> SerializeToStringIterative_outer E fuel aNode node s
      | Some cur \<Rightarrow>
          if node = None \<and> cur \<noteq> aNode then
            ensure_success (returns (SerializeNodeEnd E cur None s))
              (SerializeToStringIterative_inner E fuel aNode
                 (GetNextSibling (tree E) cur)
                 (if GetNextSibling (tree E) cur = None
                  then map_option (templateHostOrSelf (tree E) aNode) (GetParentNode (tree E) cur)
                  else Some cur))
          else SerializeToStringIterative_outer E fuel aNode node s)"

definition SerializeToStringIterative :: "env \<Rightarrow> nat \<Rightarrow> node \<Rightarrow> encoder \<Rightarrow> outcome option" where
  "SerializeToStringIterative E fuel aNode s =
     SerializeToStringIterative_outer E fuel aNode
       (GetFirstChildOfTemplateOrNode (tree E) aNode) s"

definition IsTextNode :: "dom \<Rightarrow> node option \<Rightarrow> bool" where
  "IsTextNode D aNode = (case aNode of None \<Rightarrow> False | Some n \<Rightarrow> IsText D n)"

definition NodeSerializer_SerializeTextNode ::
  "env \<Rightarrow> node \<Rightarrow> int \<Rightarrow> int \<Rightarrow> encoder \<Rightarrow> nsresult \<times> encoder" where
  "NodeSerializer_SerializeTextNode E aNode aStartOffset aEndOffset s =
     (let (rv, s1) = SerializeNodeStart E aNode aStartOffset aEndOffset None s
      in if NS_FAILED rv then (rv, s1) else SerializeNodeEnd E aNode None s1)"

section \<open>RangeContextSerializer\<close>

text \<open>
  The two strategies of \<open>RangeNodeContext\<close>: the one of \<open>nsDocumentEncoder\<close> and
  the override of \<open>nsHTMLCopyEncoder\<close>.
\<close>

definition IncludeInContext :: "env \<Rightarrow> node \<Rightarrow> bool" where
  "IncludeInContext E aNode =
     (if isHTMLCopyEncoder E then
        (if \<not> IsContent (tree E) aNode then False
         else if IsEditingHost (tree E) aNode then False
         else IsAnyOfHTMLElements (tree E) aNode
                [''b'', ''i'', ''u'', ''a'', ''tt'', ''s'', ''big'', ''small'', ''strike'',
                 ''em'', ''strong'', ''dfn'', ''code'', ''cite'', ''var'', ''abbr'', ''font'',
                 ''script'', ''span'', ''pre'', ''h1'', ''h2'', ''h3'', ''h4'', ''h5'', ''h6''])
      else False)"

fun countTableContext :: "dom \<Rightarrow> node list \<Rightarrow> nat" where
  "countTableContext D [] = 0"
| "countTableContext D (n # ns) =
     (if \<not> IsContent D n \<or>
         \<not> IsAnyOfHTMLElements D n [''tr'', ''thead'', ''tbody'', ''tfoot'', ''table'']
      then 0 else Suc (countTableContext D ns))"

definition GetImmediateContextCount :: "env \<Rightarrow> node list \<Rightarrow> int" where
  "GetImmediateContextCount E aAncestorArray =
     (if isHTMLCopyEncoder E then int (countTableContext (tree E) aAncestorArray) else - 1)"

text \<open>Appends a node to the list on top of the stack of range contexts.\<close>

definition appendToLastContext :: "node \<Rightarrow> encoder \<Rightarrow> encoder" where
  "appendToLastContext n s =
     s\<lparr>mRangeContexts := butlast (mRangeContexts s) @ [last (mRangeContexts s) @ [n]]\<rparr>"

text \<open>
  The \<open>while (i > 0)\<close> loop of \<open>SerializeRangeContextStart\<close>, over the ancestors
  from the last to the first, each with its index.
\<close>

fun contextStartLoop ::
  "env \<Rightarrow> int \<Rightarrow> (nat \<times> node) list \<Rightarrow> encoder \<Rightarrow> nsresult \<times> encoder" where
  "contextStartLoop E j [] s = (NS_OK, s)"
| "contextStartLoop E j ((i, n) # rest) s =
     (if IncludeInContext E n \<or> int i < j then
        (let (rv, s1) = SerializeNodeStart E n 0 (- 1) None s;
             s2 = appendToLastContext n s1
         in if NS_FAILED rv then (rv, s2) else contextStartLoop E j rest s2)
      else contextStartLoop E j rest s)"

definition SerializeRangeContextStart ::
  "env \<Rightarrow> node list \<Rightarrow> encoder \<Rightarrow> nsresult \<times> encoder" where
  "SerializeRangeContextStart E aAncestorArray s =
     (if mDisableContextSerialize s then (NS_OK, s)
      else contextStartLoop E (GetImmediateContextCount E aAncestorArray)
             (rev (zip [0..<length aAncestorArray] aAncestorArray))
             (s\<lparr>mRangeContexts := mRangeContexts s @ [[]]\<rparr>))"

text \<open>The loop of \<open>SerializeRangeContextEnd\<close> over the reversed context.\<close>

fun contextEndLoop :: "env \<Rightarrow> node list \<Rightarrow> encoder \<Rightarrow> nsresult \<times> encoder" where
  "contextEndLoop E [] s = (NS_OK, s)"
| "contextEndLoop E (n # rest) s =
     (let (rv, s1) = SerializeNodeEnd E n None s
      in if NS_FAILED rv then (rv, s1) else contextEndLoop E rest s1)"

definition SerializeRangeContextEnd :: "env \<Rightarrow> encoder \<Rightarrow> outcome" where
  "SerializeRangeContextEnd E s =
     (if mDisableContextSerialize s then Returns NS_OK s
      else if mRangeContexts s = [] then Crashes
      else
        (let (rv, s1) = contextEndLoop E (rev (last (mRangeContexts s))) s
         in Returns rv (s1\<lparr>mRangeContexts := butlast (mRangeContexts s1)\<rparr>)))"

section \<open>RangeSerializer\<close>

text \<open>What a range reports (\<open>nsRange\<close> is not under \<open>src/\<close>).\<close>

definition Collapsed :: "nsRange \<Rightarrow> bool" where
  "Collapsed r =
     (\<not> mIsPositioned r \<or>
      (boundaryContainer (mStart r) = boundaryContainer (mEnd r) \<and>
       boundaryOffset (mStart r) = boundaryOffset (mEnd r)))"

definition MayCrossShadowBoundary :: "nsRange \<Rightarrow> bool" where
  "MayCrossShadowBoundary r = (mCrossShadowBoundaryRange r \<noteq> None)"

definition MayCrossShadowBoundaryStartRef :: "nsRange \<Rightarrow> RawRangeBoundary" where
  "MayCrossShadowBoundaryStartRef r =
     (case mCrossShadowBoundaryRange r of Some (a, b) \<Rightarrow> a | None \<Rightarrow> mStart r)"

definition MayCrossShadowBoundaryEndRef :: "nsRange \<Rightarrow> RawRangeBoundary" where
  "MayCrossShadowBoundaryEndRef r =
     (case mCrossShadowBoundaryRange r of Some (a, b) \<Rightarrow> b | None \<Rightarrow> mEnd r)"

text \<open>
  \<open>ShadowDOMSelectionHelpers\<close> (not under \<open>src/\<close>): the boundary that may cross
  shadow boundaries when that is allowed and the preference is on, the plain boundary
  otherwise.
\<close>

definition SelectionStartRef :: "env \<Rightarrow> nsRange \<Rightarrow> bool \<Rightarrow> RawRangeBoundary" where
  "SelectionStartRef E r allow =
     (if dom_shadowdom_selection_across_boundary_enabled E \<and> allow
      then MayCrossShadowBoundaryStartRef r else mStart r)"

definition SelectionEndRef :: "env \<Rightarrow> nsRange \<Rightarrow> bool \<Rightarrow> RawRangeBoundary" where
  "SelectionEndRef E r allow =
     (if dom_shadowdom_selection_across_boundary_enabled E \<and> allow
      then MayCrossShadowBoundaryEndRef r else mEnd r)"

definition SelectionGetStartContainer :: "env \<Rightarrow> nsRange \<Rightarrow> bool \<Rightarrow> node option" where
  "SelectionGetStartContainer E r allow = boundaryContainer (SelectionStartRef E r allow)"

definition SelectionGetEndContainer :: "env \<Rightarrow> nsRange \<Rightarrow> bool \<Rightarrow> node option" where
  "SelectionGetEndContainer E r allow = boundaryContainer (SelectionEndRef E r allow)"

definition SelectionStartOffset :: "env \<Rightarrow> nsRange \<Rightarrow> bool \<Rightarrow> 32 word" where
  "SelectionStartOffset E r allow = boundaryOffset (SelectionStartRef E r allow)"

definition SelectionEndOffset :: "env \<Rightarrow> nsRange \<Rightarrow> bool \<Rightarrow> 32 word" where
  "SelectionEndOffset E r allow = boundaryOffset (SelectionEndRef E r allow)"

text \<open>
  \<open>nsTArray::operator[]\<close> at a signed index: an index outside the array stops the
  process, which is \<open>None\<close> here.
\<close>

definition ElementAt :: "'a list \<Rightarrow> int \<Rightarrow> 'a option" where
  "ElementAt xs i = (if 0 \<le> i \<and> nat i < length xs then Some (xs ! nat i) else None)"

text \<open>\<open>nsTArray::IndexOf\<close> read as an \<open>int32_t\<close>: \<open>NoIndex\<close> is \<open>-1\<close>.\<close>

definition IndexOf :: "node list \<Rightarrow> node option \<Rightarrow> int" where
  "IndexOf xs x =
     (case x of
        None \<Rightarrow> - 1
      | Some n \<Rightarrow> (case index_of xs n of None \<Rightarrow> - 1 | Some i \<Rightarrow> int i))"

text \<open>
  \<open>GetStartAndEndContentForRecursionLevel\<close>: the pair \<open>(mStart, mEnd)\<close>, or
  \<open>None\<close> when an index equal to the length of an array stops the process.
\<close>

definition GetStartAndEndContentForRecursionLevel ::
  "encoder \<Rightarrow> nat \<Rightarrow> (node option \<times> node option) option" where
  "GetStartAndEndContentForRecursionLevel s aDepth =
     (let start = mStartRootIndex s - int aDepth;
          endIdx = mEndRootIndex s - int aDepth;
          getS = (start \<ge> 0 \<and> nat start \<le> length (mInclusiveAncestorsOfStart s));
          getE = (endIdx \<ge> 0 \<and> nat endIdx \<le> length (mInclusiveAncestorsOfEnd s))
      in if getS \<and> ElementAt (mInclusiveAncestorsOfStart s) start = None then None
         else if getE \<and> ElementAt (mInclusiveAncestorsOfEnd s) endIdx = None then None
         else Some (if getS then ElementAt (mInclusiveAncestorsOfStart s) start else None,
                    if getE then ElementAt (mInclusiveAncestorsOfEnd s) endIdx else None))"

definition RangeSerializer_SerializeTextNode ::
  "env \<Rightarrow> node \<Rightarrow> node option \<times> node option \<Rightarrow> nsRange \<Rightarrow> encoder \<Rightarrow> nsresult \<times> encoder" where
  "RangeSerializer_SerializeTextNode E aContent se aRange s =
     (let startOffset =
            (if fst se = Some aContent
             then int32_of (SelectionStartOffset E aRange (mAllowCrossShadowBoundary s)) else 0);
          endOffset =
            (if snd se = Some aContent
             then int32_of (SelectionEndOffset E aRange (mAllowCrossShadowBoundary s)) else - 1)
      in NodeSerializer_SerializeTextNode E aContent startOffset endOffset s)"

text \<open>
  The first half of the non-text branch of
  \<open>SerializeNodePartiallyContainedInRange\<close>: the context depth counters and the
  start of the node, unless the node is the common ancestor.
\<close>

definition enterPartiallyContainedNode ::
  "env \<Rightarrow> node \<Rightarrow> node option \<times> node option \<Rightarrow> encoder \<Rightarrow> nsresult \<times> encoder" where
  "enterPartiallyContainedNode E aContent se s =
     (if Some aContent \<noteq> mClosestCommonInclusiveAncestorOfRange s then
        (let s1 = (if IncludeInContext E aContent then s\<lparr>mHaltRangeHint := True\<rparr> else s);
             s2 = (if fst se = Some aContent \<and> \<not> mHaltRangeHint s1
                   then s1\<lparr>mContextInfoDepthStart := mContextInfoDepthStart s1 + 1\<rparr> else s1);
             s3 = (if snd se = Some aContent \<and> \<not> mHaltRangeHint s2
                   then s2\<lparr>mContextInfoDepthEnd := mContextInfoDepthEnd s2 + 1\<rparr> else s2)
         in SerializeNodeStart E aContent 0 (- 1) None s3)
      else (NS_OK, s))"

text \<open>
  The child offsets \<open>[startOffset, endOffset)\<close> of a partially contained node;
  \<open>None\<close> when reading an offset array stops the process.
\<close>

definition partialChildOffsets ::
  "env \<Rightarrow> node \<Rightarrow> node option \<times> node option \<Rightarrow> nsRange \<Rightarrow> nat \<Rightarrow> encoder
     \<Rightarrow> (32 word \<times> 32 word) option" where
  "partialChildOffsets E aContent se aRange aDepth s =
     (let readS = (fst se = Some aContent \<and> mStartRootIndex s \<ge> int aDepth);
          readE = (snd se = Some aContent \<and> mEndRootIndex s \<ge> int aDepth);
          atS = ElementAt (mInclusiveAncestorsOffsetsOfStart s) (mStartRootIndex s - int aDepth);
          atE = ElementAt (mInclusiveAncestorsOffsetsOfEnd s) (mEndRootIndex s - int aDepth)
      in if readS \<and> atS = None then None
         else if readE \<and> atE = None then None
         else
           (let startOffset =
                  (if readS then (case atS of Some (Some v) \<Rightarrow> v | _ \<Rightarrow> 0) else 0);
                endOffset0 = (if readE then (case atE of Some v \<Rightarrow> v | None \<Rightarrow> None) else None);
                endOffset =
                  (case endOffset0 of
                     None \<Rightarrow>
                       (if mAllowCrossShadowBoundary s \<and> IsSlot (tree E) aContent
                            \<and> AssignedNodes (tree E) aContent \<noteq> []
                        then of_nat (length (AssignedNodes (tree E) aContent))
                        else of_nat (GetChildCount (tree E) aContent))
                   | Some v \<Rightarrow>
                       (if Some aContent \<noteq>
                             SelectionGetEndContainer E aRange (mAllowCrossShadowBoundary s)
                        then v + 1 else v))
            in Some (startOffset, endOffset)))"

text \<open>The sibling that the loop of \<open>SerializeChildrenOfContent\<close> moves to.\<close>

definition rangeNextSibling :: "env \<Rightarrow> encoder \<Rightarrow> node \<Rightarrow> node \<Rightarrow> nat \<Rightarrow> node option" where
  "rangeNextSibling E s aContent aCurrentNode aCurrentIndex =
     (if mAllowCrossShadowBoundary s \<and> IsSlot (tree E) aContent then
        (if Suc aCurrentIndex < length (AssignedNodes (tree E) aContent)
         then Some (AssignedNodes (tree E) aContent ! Suc aCurrentIndex) else None)
      else GetNextSibling (tree E) aCurrentNode)"

text \<open>
  \<open>SerializeRangeNodes\<close>, \<open>SerializeNodePartiallyContainedInRange\<close> and
  \<open>SerializeChildrenOfContent\<close> call each other. The two latter are written first,
  with the call back into \<open>SerializeRangeNodes\<close> as the argument \<open>rangeNodes\<close>;
  \<open>SerializeRangeNodes\<close> then closes the recursion. Its first argument bounds the
  depth of that recursion; a fully contained node is handed to
  \<open>SerializeToStringRecursive\<close> with the same bound.
\<close>

type_synonym range_walk = "node option \<Rightarrow> nat \<Rightarrow> encoder \<Rightarrow> outcome option"

text \<open>
  The \<open>for\<close> loop of \<open>SerializeChildrenOfContent\<close>, at child index \<open>j\<close> with
  \<open>remaining = aEndOffset - j\<close> indices to go.
\<close>

fun SerializeChildrenOfContent_loop ::
  "env \<Rightarrow> nat \<Rightarrow> range_walk \<Rightarrow> node \<Rightarrow> nat \<Rightarrow> nat \<Rightarrow> nat \<Rightarrow> nat \<Rightarrow> node option \<Rightarrow> encoder
     \<Rightarrow> outcome option" where
  "SerializeChildrenOfContent_loop E fuel rangeNodes aContent aStartOffset aDepth 0 j
     childAsNode s = Some (Returns NS_OK s)"
| "SerializeChildrenOfContent_loop E fuel rangeNodes aContent aStartOffset aDepth (Suc remaining) j
     childAsNode s =
     (case childAsNode of
        None \<Rightarrow> Some (Returns NS_OK s)
      | Some child \<Rightarrow>
          ensure_success
            (if j = aStartOffset \<or> remaining = 0
             then rangeNodes (Some child) (aDepth + 1) s
             else SerializeToStringRecursive E fuel (Some child) True 0 s)
            (\<lambda>s1. SerializeChildrenOfContent_loop E fuel rangeNodes aContent aStartOffset
                     aDepth remaining (Suc j) (rangeNextSibling E s1 aContent child j) s1))"

definition SerializeChildrenOfContent_with ::
  "env \<Rightarrow> nat \<Rightarrow> range_walk \<Rightarrow> node \<Rightarrow> 32 word \<Rightarrow> 32 word \<Rightarrow> nat \<Rightarrow> encoder
     \<Rightarrow> outcome option" where
  "SerializeChildrenOfContent_with E fuel rangeNodes aContent aStartOffset aEndOffset aDepth s =
     (case SelectionGetShadowRoot E aContent (mAllowCrossShadowBoundary s) of
        Some shadowRoot \<Rightarrow>
          ignoring_result (rangeNodes (Some shadowRoot) (aDepth + 1) s)
            (\<lambda>s1. Some (Returns NS_OK s1))
      | None \<Rightarrow>
          if aEndOffset = 0 then Some (Returns NS_OK s)
          else
            SerializeChildrenOfContent_loop E fuel rangeNodes aContent (unat aStartOffset)
              aDepth (unat aEndOffset - unat aStartOffset) (unat aStartOffset)
              (if mAllowCrossShadowBoundary s
               then GetChildAtInFlatTree (tree E) aContent (unat aStartOffset)
               else GetChildAt_Deprecated (tree E) aContent (unat aStartOffset)) s)"

definition SerializeNodePartiallyContainedInRange_with ::
  "env \<Rightarrow> nat \<Rightarrow> range_walk \<Rightarrow> node \<Rightarrow> node option \<times> node option \<Rightarrow> nsRange \<Rightarrow> nat
     \<Rightarrow> encoder \<Rightarrow> outcome option" where
  "SerializeNodePartiallyContainedInRange_with E fuel rangeNodes aContent se aRange aDepth s =
     (if IsTextNode (tree E) (Some aContent) then
        ensure_success (returns (RangeSerializer_SerializeTextNode E aContent se aRange s))
          (\<lambda>s1. Some (Returns NS_OK s1))
      else
        ensure_success (returns (enterPartiallyContainedNode E aContent se s))
          (\<lambda>s1.
             (case partialChildOffsets E aContent se aRange aDepth s1 of
                None \<Rightarrow> Some Crashes
              | Some (startOffset, endOffset) \<Rightarrow>
                  ensure_success
                    (SerializeChildrenOfContent_with E fuel rangeNodes aContent startOffset
                       endOffset aDepth s1)
                    (\<lambda>s2.
                       ensure_success
                         (if Some aContent \<noteq> mClosestCommonInclusiveAncestorOfRange s2
                          then returns (SerializeNodeEnd E aContent None s2)
                          else Some (Returns NS_OK s2))
                         (\<lambda>s3. Some (Returns NS_OK s3))))))"

fun SerializeRangeNodes ::
  "env \<Rightarrow> nat \<Rightarrow> nsRange \<Rightarrow> node option \<Rightarrow> nat \<Rightarrow> encoder \<Rightarrow> outcome option" where
  "SerializeRangeNodes E 0 aRange aNode aDepth s = None"
| "SerializeRangeNodes E (Suc fuel) aRange aNode aDepth s =
     (case FromNodeOrNull (tree E) aNode of
        None \<Rightarrow> Some (Returns NS_ERROR_FAILURE s)
      | Some content \<Rightarrow>
          if IsInvisibleNodeAndShouldBeSkipped (tree E) content (mFlags s)
          then Some (Returns NS_OK s)
          else
            (case GetStartAndEndContentForRecursionLevel s aDepth of
               None \<Rightarrow> Some Crashes
             | Some se \<Rightarrow>
                 if fst se \<noteq> Some content \<and> snd se \<noteq> Some content then
                   ensure_success
                     (SerializeToStringRecursive E (Suc fuel) aNode True 0 s)
                     (\<lambda>s1. Some (Returns NS_OK s1))
                 else
                   ensure_success
                     (SerializeNodePartiallyContainedInRange_with E fuel
                        (SerializeRangeNodes E fuel aRange) content se aRange aDepth s)
                     (\<lambda>s1. Some (Returns NS_OK s1))))"

definition SerializeNodePartiallyContainedInRange ::
  "env \<Rightarrow> nat \<Rightarrow> node \<Rightarrow> node option \<times> node option \<Rightarrow> nsRange \<Rightarrow> nat \<Rightarrow> encoder
     \<Rightarrow> outcome option" where
  "SerializeNodePartiallyContainedInRange E fuel aContent se aRange aDepth s =
     SerializeNodePartiallyContainedInRange_with E fuel (SerializeRangeNodes E fuel aRange)
       aContent se aRange aDepth s"

definition SerializeChildrenOfContent ::
  "env \<Rightarrow> nat \<Rightarrow> node \<Rightarrow> 32 word \<Rightarrow> 32 word \<Rightarrow> nsRange \<Rightarrow> nat \<Rightarrow> encoder \<Rightarrow> outcome option" where
  "SerializeChildrenOfContent E fuel aContent aStartOffset aEndOffset aRange aDepth s =
     SerializeChildrenOfContent_with E fuel (SerializeRangeNodes E fuel aRange)
       aContent aStartOffset aEndOffset aDepth s"

definition HasInvisibleParentAndShouldBeSkipped :: "env \<Rightarrow> encoder \<Rightarrow> node \<Rightarrow> bool" where
  "HasInvisibleParentAndShouldBeSkipped E s aNode =
     (if SkipInvisibleContent \<notin> mFlags s then False
      else if IsContent (tree E) aNode \<and> \<not> GetPrimaryFrame (tree E) aNode then
        (case GetParent (tree E) aNode of
           None \<Rightarrow> True
         | Some parent \<Rightarrow> IsInvisibleNodeAndShouldBeSkipped (tree E) parent (mFlags s))
      else False)"

text \<open>
  The state of the \<open>RangeSerializer\<close> once \<open>SerializeRangeToString\<close> has computed
  the common ancestor, the ancestor chains of both boundaries and their root indices.
\<close>

definition prepareRange ::
  "env \<Rightarrow> node option \<Rightarrow> node \<Rightarrow> 32 word \<Rightarrow> node \<Rightarrow> 32 word \<Rightarrow> encoder \<Rightarrow> encoder" where
  "prepareRange E common startContainer startOffset endContainer endOffset s =
     (let chainS = (if mAllowCrossShadowBoundary s
                    then GetFlattenedTreeAncestorsAndOffsets E startContainer startOffset
                    else GetInclusiveAncestorsAndOffsets E startContainer startOffset);
          chainE = (if mAllowCrossShadowBoundary s
                    then GetFlattenedTreeAncestorsAndOffsets E endContainer endOffset
                    else GetInclusiveAncestorsAndOffsets E endContainer endOffset);
          commonContent = FromNodeOrNull (tree E) common
      in s\<lparr>mClosestCommonInclusiveAncestorOfRange := common,
            mContextInfoDepthStart := 0,
            mContextInfoDepthEnd := 0,
            mCommonInclusiveAncestors := GetInclusiveAncestors E common,
            mInclusiveAncestorsOfStart := map fst chainS,
            mInclusiveAncestorsOffsetsOfStart := map snd chainS,
            mInclusiveAncestorsOfEnd := map fst chainE,
            mInclusiveAncestorsOffsetsOfEnd := map snd chainE,
            mStartRootIndex := IndexOf (map fst chainS) commonContent,
            mEndRootIndex := IndexOf (map fst chainE) commonContent\<rparr>)"

definition SerializeRangeToString ::
  "env \<Rightarrow> nat \<Rightarrow> nsRange option \<Rightarrow> encoder \<Rightarrow> outcome option" where
  "SerializeRangeToString E fuel aRange s =
     (case aRange of
        None \<Rightarrow> Some (Returns NS_OK s)
      | Some r \<Rightarrow>
          if Collapsed r \<and> (\<not> mAllowCrossShadowBoundary s \<or> \<not> MayCrossShadowBoundary r)
          then Some (Returns NS_OK s)
          else
            (let common = GetClosestCommonInclusiveAncestor E r (mAllowCrossShadowBoundary s);
                 s0 = s\<lparr>mClosestCommonInclusiveAncestorOfRange := common\<rparr>
             in if common = None then Some (Returns NS_OK s0)
                else
                  (case SelectionGetStartContainer E r (mAllowCrossShadowBoundary s) of
                     None \<Rightarrow> Some (Returns NS_ERROR_FAILURE s0)
                   | Some startContainer \<Rightarrow>
                       (case SelectionGetEndContainer E r (mAllowCrossShadowBoundary s) of
                          None \<Rightarrow> Some (Returns NS_ERROR_FAILURE s0)
                        | Some endContainer \<Rightarrow>
                            (let startOffset =
                                   SelectionStartOffset E r (mAllowCrossShadowBoundary s);
                                 endOffset =
                                   SelectionEndOffset E r (mAllowCrossShadowBoundary s);
                                 s1 = prepareRange E common startContainer startOffset
                                        endContainer endOffset s0
                             in ensure_success
                                  (returns (SerializeRangeContextStart E
                                              (mCommonInclusiveAncestors s1) s1))
                                  (\<lambda>s2.
                                     if startContainer = endContainer
                                        \<and> IsTextNode (tree E) (Some startContainer)
                                     then
                                       (if HasInvisibleParentAndShouldBeSkipped E s2 startContainer
                                        then Some (Returns NS_OK s2)
                                        else
                                          ensure_success
                                            (returns (NodeSerializer_SerializeTextNode E
                                                        startContainer (int32_of startOffset)
                                                        (int32_of endOffset) s2))
                                            (\<lambda>s3. Some (SerializeRangeContextEnd E s3)))
                                     else
                                       ensure_success
                                         (SerializeRangeNodes E fuel r common 0 s2)
                                         (\<lambda>s3. Some (SerializeRangeContextEnd E s3))))))))"

section \<open>nsDocumentEncoder\<close>

definition ParentIsTR :: "dom \<Rightarrow> node \<Rightarrow> bool" where
  "ParentIsTR D aContent =
     (case GetParentElement D aContent of
        None \<Rightarrow> False
      | Some parent \<Rightarrow> IsHTMLElement D parent ''tr'')"

text \<open>
  One turn of the \<open>for\<close> loop of \<open>SerializeSelection\<close> either leaves the function
  or goes on with the encoder and the locals \<open>prevNode\<close> and
  \<open>firstRangeStartDepth\<close>.
\<close>

datatype loop_step = Leave outcome | GoOn encoder "node option" nat

text \<open>The part of the loop body before \<open>SerializeRangeToString\<close>.\<close>

definition SerializeSelection_rows ::
  "env \<Rightarrow> node \<Rightarrow> node option \<Rightarrow> encoder \<Rightarrow> outcome \<times> node option" where
  "SerializeSelection_rows E n prevNode s =
     (if Some n \<noteq> prevNode then
        (let (rv0, s0) = (case prevNode of
                            None \<Rightarrow> (NS_OK, s)
                          | Some p \<Rightarrow> SerializeNodeEnd E p None s)
         in if NS_FAILED rv0 then (Returns rv0 s0, prevNode)
            else if IsContent (tree E) n \<and> IsHTMLElement (tree E) n ''tr''
                    \<and> \<not> ParentIsTR (tree E) n then
              (let (rv1, s1) =
                     (if prevNode = None then
                        (let sa = s0\<lparr>mCommonInclusiveAncestors :=
                                        GetInclusiveAncestors E (GetParentNode (tree E) n)\<rparr>;
                             (rv, sb) = SerializeRangeContextStart E
                                          (mCommonInclusiveAncestors sa) sa
                         in if NS_FAILED rv then (rv, sb)
                            else (NS_OK, sb\<lparr>mDisableContextSerialize := True\<rparr>))
                      else (NS_OK, s0))
               in if NS_FAILED rv1 then (Returns rv1 s1, prevNode)
                  else
                    (let (rv2, s2) = SerializeNodeStart E n 0 (- 1) None s1
                     in if NS_FAILED rv2 then (Returns rv2 s2, prevNode)
                        else (Returns NS_OK s2, Some n)))
            else
              (case prevNode of
                 None \<Rightarrow> (Returns NS_OK s0, prevNode)
               | Some p \<Rightarrow>
                   (case SerializeRangeContextEnd E
                           (s0\<lparr>mDisableContextSerialize := False,
                                mCommonInclusiveAncestors :=
                                  GetInclusiveAncestors E (GetParentNode (tree E) p)\<rparr>) of
                      Crashes \<Rightarrow> (Crashes, prevNode)
                    | Returns rv3 s3 \<Rightarrow>
                        if NS_FAILED rv3 then (Returns rv3 s3, prevNode)
                        else (Returns NS_OK s3, None))))
      else (Returns NS_OK s, prevNode))"

definition SerializeSelection_body ::
  "env \<Rightarrow> nat \<Rightarrow> nsRange \<Rightarrow> nat \<Rightarrow> node option \<Rightarrow> nat \<Rightarrow> encoder \<Rightarrow> loop_step option" where
  "SerializeSelection_body E fuel aRange i prevNode firstRangeStartDepth s =
     (case SelectionGetStartContainer E aRange (GetAllowRangeCrossShadowBoundary (mFlags s)) of
        None \<Rightarrow> Some (Leave (Returns NS_ERROR_FAILURE s))
      | Some n \<Rightarrow>
          (case SerializeSelection_rows E n prevNode s of
             (Crashes, _) \<Rightarrow> Some (Leave Crashes)
           | (Returns rv s1, prevNode1) \<Rightarrow>
               if NS_FAILED rv then Some (Leave (Returns rv s1))
               else
                 (case SerializeRangeToString E fuel (Some aRange) s1 of
                    None \<Rightarrow> None
                  | Some Crashes \<Rightarrow> Some (Leave Crashes)
                  | Some (Returns rv2 s2) \<Rightarrow>
                      if NS_FAILED rv2 then Some (Leave (Returns rv2 s2))
                      else Some (GoOn s2 prevNode1
                                   (if i = 0 then mContextInfoDepthStart s2
                                    else firstRangeStartDepth)))))"

text \<open>What \<open>SerializeSelection\<close> does after the loop.\<close>

definition SerializeSelection_finish :: "env \<Rightarrow> node option \<Rightarrow> nat \<Rightarrow> encoder \<Rightarrow> outcome" where
  "SerializeSelection_finish E prevNode firstRangeStartDepth s =
     (let s0 = s\<lparr>mContextInfoDepthStart := firstRangeStartDepth\<rparr>
      in case prevNode of
           None \<Rightarrow> Returns NS_OK (s0\<lparr>mDisableContextSerialize := False\<rparr>)
         | Some p \<Rightarrow>
             (let (rv, s1) = SerializeNodeEnd E p None s0
              in if NS_FAILED rv then Returns rv s1
                 else
                   (case SerializeRangeContextEnd E
                           (s1\<lparr>mDisableContextSerialize := False,
                                mCommonInclusiveAncestors :=
                                  GetInclusiveAncestors E (GetParentNode (tree E) p)\<rparr>) of
                      Crashes \<Rightarrow> Crashes
                    | Returns rv2 s2 \<Rightarrow>
                        if NS_FAILED rv2 then Returns rv2 s2
                        else Returns NS_OK (s2\<lparr>mDisableContextSerialize := False\<rparr>))))"

fun SerializeSelection_loop ::
  "env \<Rightarrow> nat \<Rightarrow> nsRange list \<Rightarrow> nat \<Rightarrow> node option \<Rightarrow> nat \<Rightarrow> encoder \<Rightarrow> outcome option" where
  "SerializeSelection_loop E fuel [] i prevNode firstRangeStartDepth s =
     Some (SerializeSelection_finish E prevNode firstRangeStartDepth s)"
| "SerializeSelection_loop E fuel (aRange # ranges) i prevNode firstRangeStartDepth s =
     (case SerializeSelection_body E fuel aRange i prevNode firstRangeStartDepth s of
        None \<Rightarrow> None
      | Some (Leave out) \<Rightarrow> Some out
      | Some (GoOn s1 prevNode1 first1) \<Rightarrow>
          SerializeSelection_loop E fuel ranges (Suc i) prevNode1 first1 s1)"

definition SerializeSelection :: "env \<Rightarrow> nat \<Rightarrow> encoder \<Rightarrow> outcome option" where
  "SerializeSelection E fuel s =
     (case mSelection (mEncodingScope s) of
        None \<Rightarrow> Some (Returns NS_ERROR_FAILURE s)
      | Some ranges \<Rightarrow> SerializeSelection_loop E fuel ranges 0 None 0 s)"

definition SerializeNode :: "env \<Rightarrow> nat \<Rightarrow> encoder \<Rightarrow> outcome option" where
  "SerializeNode E fuel s =
     (case mNode (mEncodingScope s) of
        None \<Rightarrow> Some (Returns NS_ERROR_FAILURE s)
      | Some n \<Rightarrow>
          if \<not> mNodeFixup s \<and> SkipInvisibleContent \<notin> mFlags s \<and> mTextStreamer s = None
             \<and> mNodeIsContainer (mEncodingScope s)
          then SerializeToStringIterative E fuel n s
          else SerializeToStringRecursive E fuel (Some n)
                 (\<not> mNodeIsContainer (mEncodingScope s)) 0 s)"

definition SerializeWholeDocument :: "env \<Rightarrow> nat \<Rightarrow> 32 word \<Rightarrow> encoder \<Rightarrow> outcome option" where
  "SerializeWholeDocument E fuel aMaxLength s =
     (if mSelection (mEncodingScope s) \<noteq> None then Some (Returns NS_ERROR_FAILURE s)
      else if mRange (mEncodingScope s) \<noteq> None then Some (Returns NS_ERROR_FAILURE s)
      else if mNode (mEncodingScope s) \<noteq> None then Some (Returns NS_ERROR_FAILURE s)
      else
        ensure_success (returns (serializer_call E (AppendDocumentStart (mDocument s)) s))
          (SerializeToStringRecursive E fuel (mDocument s) True aMaxLength))"

definition SerializeDependingOnScope :: "env \<Rightarrow> nat \<Rightarrow> 32 word \<Rightarrow> encoder \<Rightarrow> outcome option" where
  "SerializeDependingOnScope E fuel aMaxLength s =
     (case
        (if mSelection (mEncodingScope s) \<noteq> None then SerializeSelection E fuel s
         else if mRange (mEncodingScope s) \<noteq> None
         then SerializeRangeToString E fuel (mRange (mEncodingScope s)) s
         else if mNode (mEncodingScope s) \<noteq> None then SerializeNode E fuel s
         else SerializeWholeDocument E fuel aMaxLength s) of
        None \<Rightarrow> None
      | Some Crashes \<Rightarrow> Some Crashes
      | Some (Returns rv s1) \<Rightarrow> Some (Returns rv (s1\<lparr>mEncodingScope := emptyScope\<rparr>)))"

text \<open>\<open>RangeSerializer::Initialize\<close> and \<open>nsDocumentEncoder::Initialize\<close>.\<close>

definition RangeSerializer_Initialize :: "bool \<Rightarrow> encoder \<Rightarrow> encoder" where
  "RangeSerializer_Initialize aAllowCrossShadowBoundary s =
     s\<lparr>mContextInfoDepthStart := 0,
       mContextInfoDepthEnd := 0,
       mStartRootIndex := 0,
       mEndRootIndex := 0,
       mHaltRangeHint := False,
       mClosestCommonInclusiveAncestorOfRange := None,
       mInclusiveAncestorsOfStart := [],
       mInclusiveAncestorsOffsetsOfStart := [],
       mInclusiveAncestorsOfEnd := [],
       mInclusiveAncestorsOffsetsOfEnd := [],
       mAllowCrossShadowBoundary := aAllowCrossShadowBoundary\<rparr>"

definition Initialize :: "bool \<Rightarrow> bool \<Rightarrow> encoder \<Rightarrow> encoder" where
  "Initialize aClearCachedSerializer aAllowCrossShadowBoundary s =
     (let s1 = (RangeSerializer_Initialize aAllowCrossShadowBoundary
                  (s\<lparr>mFlags := {}, mWrapColumn := 72\<rparr>))
                 \<lparr>mNeedsPreformatScanning := False,
                  mDisableContextSerialize := False,
                  mEncodingScope := emptyScope,
                  mNodeFixup := False\<rparr>
      in if aClearCachedSerializer then s1\<lparr>mSerializer := False, serializerCalls := []\<rparr> else s1)"

definition ReleaseDocumentReferenceAndInitialize :: "bool \<Rightarrow> encoder \<Rightarrow> encoder" where
  "ReleaseDocumentReferenceAndInitialize aClearCachedSerializer s =
     Initialize aClearCachedSerializer False (s\<lparr>mDocument := None\<rparr>)"

text \<open>
  The two scope guards of \<open>EncodeToStringWithMaxLength\<close>, in the order in which
  they run when the function returns: \<open>AutoReleaseDocumentIfNeeded\<close>, then the
  clearing of the range contexts.
\<close>

definition AutoReleaseDocumentIfNeeded :: "encoder \<Rightarrow> encoder" where
  "AutoReleaseDocumentIfNeeded s =
     (if RequiresReinitAfterOutput \<in> mFlags s
      then ReleaseDocumentReferenceAndInitialize False s else s)"

definition rangeContextGuard :: "encoder \<Rightarrow> encoder" where
  "rangeContextGuard s = s\<lparr>mRangeContexts := []\<rparr>"

text \<open>
  \<open>EncodeToStringWithMaxLength\<close>. \<open>aOutputString\<close> is the caller's string, passed
  in and handed back; the walk writes into the local \<open>output\<close>, which is what the
  serializer has produced since its \<open>Init\<close>.
\<close>

definition EncodeToStringWithMaxLength ::
  "env \<Rightarrow> nat \<Rightarrow> 32 word \<Rightarrow> char16 list \<Rightarrow> encoder \<Rightarrow> (outcome \<times> char16 list) option" where
  "EncodeToStringWithMaxLength E fuel aMaxLength aOutputString s =
     (if mDocument s = None
      then Some (Returns NS_ERROR_NOT_INITIALIZED (rangeContextGuard s), aOutputString)
      else if \<not> mCachedBuffer s \<and> \<not> stringBufferAlloc E
      then Some (Returns NS_ERROR_OUT_OF_MEMORY
                   (rangeContextGuard (AutoReleaseDocumentIfNeeded s)), [])
      else
        (let s1 = s\<lparr>mCachedBuffer := False\<rparr>
         in if \<not> mSerializer s1 \<and> \<not> createSerializer E (mMimeType s1)
            then Some (Returns NS_ERROR_NOT_IMPLEMENTED
                         (rangeContextGuard (AutoReleaseDocumentIfNeeded s1)), [])
            else
              (let s2 = (if mSerializer s1 then s1
                         else s1\<lparr>mSerializer := True, serializerCalls := []\<rparr>);
                   rewriteEncodingDeclaration =
                     (\<not> IsLimited (mEncodingScope s2)
                      \<and> OutputDontRewriteEncodingDeclaration \<notin> mFlags s2);
                   s3 = snd (serializer_call E
                               (SerializerInit (mFlags s2) (mWrapColumn s2) (mIsCopying s2)
                                  rewriteEncodingDeclaration) s2);
                   s4 = s3\<lparr>mNeedsPreformatScanning :=
                              needsPreformatScanning E (serializerCalls s3)\<rparr>
               in case SerializeDependingOnScope E fuel aMaxLength s4 of
                    None \<Rightarrow> None
                  | Some Crashes \<Rightarrow> Some (Crashes, [])
                  | Some (Returns rv s5) \<Rightarrow>
                      if NS_FAILED rv
                      then Some (Returns rv (rangeContextGuard (AutoReleaseDocumentIfNeeded s5)),
                                 [])
                      else
                        (let (rv2, s6) = serializer_call E FlushAndFinish s5;
                             s7 = s6\<lparr>mCachedBuffer :=
                                        outputBufferIsReusable E (serializerCalls s6)\<rparr>
                         in Some (Returns rv2 (rangeContextGuard (AutoReleaseDocumentIfNeeded s7)),
                                  if NS_SUCCEEDED rv2
                                  then serializerOutput E (serializerCalls s6) else [])))))"

text \<open>
  \<open>EncodeToString\<close> is virtual: \<open>nsHTMLCopyEncoder\<close> first switches a text widget
  to plain text, then calls the one of \<open>nsDocumentEncoder\<close>.
\<close>

definition nsDocumentEncoder_EncodeToString ::
  "env \<Rightarrow> nat \<Rightarrow> char16 list \<Rightarrow> encoder \<Rightarrow> (outcome \<times> char16 list) option" where
  "nsDocumentEncoder_EncodeToString E fuel aOutputString s =
     EncodeToStringWithMaxLength E fuel 0 aOutputString s"

definition EncodeToString ::
  "env \<Rightarrow> nat \<Rightarrow> char16 list \<Rightarrow> encoder \<Rightarrow> (outcome \<times> char16 list) option" where
  "EncodeToString E fuel aOutputString s =
     (if isHTMLCopyEncoder E
      then nsDocumentEncoder_EncodeToString E fuel aOutputString
             (if mIsTextWidget s then s\<lparr>mMimeType := ''text/plain''\<rparr> else s)
      else nsDocumentEncoder_EncodeToString E fuel aOutputString s)"

definition asciiLower :: "char \<Rightarrow> char" where
  "asciiLower c =
     (if (65::nat) \<le> of_char c \<and> (of_char c :: nat) \<le> 90
      then char_of ((of_char c :: nat) + 32) else c)"

definition LowerCaseEqualsLiteral :: "string \<Rightarrow> string \<Rightarrow> bool" where
  "LowerCaseEqualsLiteral str lit = (map asciiLower str = lit)"

text \<open>
  \<open>EncodeToStream\<close>. \<open>aStream\<close> is \<open>None\<close> for a null pointer, and otherwise the
  chunks the stream has been given before. The streamer's buffer is the local
  \<open>buf\<close>, which is also the string that \<open>EncodeToString\<close> fills.
\<close>

definition EncodeToStream ::
  "env \<Rightarrow> nat \<Rightarrow> byte list list option \<Rightarrow> encoder \<Rightarrow> outcome option" where
  "EncodeToStream E fuel aStream s =
     (case aStream of
        None \<Rightarrow> Some (Returns NS_ERROR_NULL_POINTER (rangeContextGuard s))
      | Some written \<Rightarrow>
          if mDocument s = None then Some (Returns NS_ERROR_NOT_INITIALIZED (rangeContextGuard s))
          else if \<not> mEncoding s then Some (Returns NS_ERROR_UCONV_NOCONV (rangeContextGuard s))
          else
            (let t = \<lparr>mIsPlainText = LowerCaseEqualsLiteral (mMimeType s) ''text/plain'',
                       mUnicodeEncoder = 0, mStreamWrites = written, mOutputBuffer = []\<rparr>
             in case EncodeToString E fuel [] (s\<lparr>mTextStreamer := Some t\<rparr>) of
                  None \<Rightarrow> None
                | Some (Crashes, _) \<Rightarrow> Some Crashes
                | Some (Returns rv s1, buf) \<Rightarrow>
                    (case mTextStreamer s1 of
                       None \<Rightarrow> Some Crashes
                     | Some t1 \<Rightarrow>
                         (case ForceFlush (streamerEnv E) (t1\<lparr>mOutputBuffer := buf\<rparr>) of
                            None \<Rightarrow> None
                          | Some (rv2, t2) \<Rightarrow>
                              if NS_FAILED rv2
                              then Some (Returns rv2
                                           (rangeContextGuard (s1\<lparr>mTextStreamer := Some t2\<rparr>)))
                              else Some (Returns rv2
                                           (rangeContextGuard (s1\<lparr>mTextStreamer := None\<rparr>)))))))"

section \<open>Range boundaries\<close>

text \<open>
  Modelled from the spec: \<open>RawRangeBoundary\<close> is not under \<open>src/\<close>. A boundary
  is a container and an offset that indexes a child position, or a character offset
  within a text node; the child at the offset is undefined at the end of the container.
  A boundary without container is unset. In the flat tree the children and the parent
  of a node are those of the flattened tree.
\<close>

definition unsetBoundary :: "bool \<Rightarrow> RawRangeBoundary" where
  "unsetBoundary flat = \<lparr>boundaryContainer = None, boundaryOffset = 0, boundaryIsFlat = flat\<rparr>"

definition IsSet :: "RawRangeBoundary \<Rightarrow> bool" where
  "IsSet b = (boundaryContainer b \<noteq> None)"

definition boundaryChildren :: "dom \<Rightarrow> bool \<Rightarrow> node \<Rightarrow> node list" where
  "boundaryChildren D flat c = (if flat then flatChildNodes D c else childNodes D c)"

definition boundaryParent :: "dom \<Rightarrow> bool \<Rightarrow> node \<Rightarrow> node option" where
  "boundaryParent D flat n =
     (if flat then GetFlattenedTreeParentNodeForSelection D n else GetParentNode D n)"

definition nodeAt :: "node list \<Rightarrow> nat \<Rightarrow> node option" where
  "nodeAt xs i = (if i < length xs then Some (xs ! i) else None)"

definition IsStartOfContainer :: "RawRangeBoundary \<Rightarrow> bool" where
  "IsStartOfContainer b = (boundaryOffset b = 0)"

definition IsEndOfContainer :: "dom \<Rightarrow> RawRangeBoundary \<Rightarrow> bool" where
  "IsEndOfContainer D b =
     (case boundaryContainer b of
        None \<Rightarrow> False
      | Some c \<Rightarrow>
          unat (boundaryOffset b) =
            (if IsText D c then length (textData D c)
             else length (boundaryChildren D (boundaryIsFlat b) c)))"

definition GetChildAtOffset :: "dom \<Rightarrow> RawRangeBoundary \<Rightarrow> node option" where
  "GetChildAtOffset D b =
     (case boundaryContainer b of
        None \<Rightarrow> None
      | Some c \<Rightarrow>
          if IsText D c then None
          else nodeAt (boundaryChildren D (boundaryIsFlat b) c) (unat (boundaryOffset b)))"

definition GetPreviousSiblingOfChildAtOffset :: "dom \<Rightarrow> RawRangeBoundary \<Rightarrow> node option" where
  "GetPreviousSiblingOfChildAtOffset D b =
     (case boundaryContainer b of
        None \<Rightarrow> None
      | Some c \<Rightarrow>
          if IsText D c \<or> boundaryOffset b = 0 then None
          else nodeAt (boundaryChildren D (boundaryIsFlat b) c) (unat (boundaryOffset b) - 1))"

definition GetNextSiblingOfChildAtOffset :: "dom \<Rightarrow> RawRangeBoundary \<Rightarrow> node option" where
  "GetNextSiblingOfChildAtOffset D b =
     (case boundaryContainer b of
        None \<Rightarrow> None
      | Some c \<Rightarrow>
          if IsText D c then None
          else nodeAt (boundaryChildren D (boundaryIsFlat b) c) (Suc (unat (boundaryOffset b))))"

text \<open>
  The boundary at a child and the one after it; unset when the child has no parent or
  is not among the children of its parent.
\<close>

definition FromChild :: "dom \<Rightarrow> node \<Rightarrow> bool \<Rightarrow> RawRangeBoundary" where
  "FromChild D child flat =
     (case boundaryParent D flat child of
        None \<Rightarrow> unsetBoundary flat
      | Some p \<Rightarrow>
          (case index_of (boundaryChildren D flat p) child of
             None \<Rightarrow> unsetBoundary flat
           | Some i \<Rightarrow>
               \<lparr>boundaryContainer = Some p, boundaryOffset = of_nat i, boundaryIsFlat = flat\<rparr>))"

definition After :: "dom \<Rightarrow> node \<Rightarrow> bool \<Rightarrow> RawRangeBoundary" where
  "After D child flat =
     (case boundaryParent D flat child of
        None \<Rightarrow> unsetBoundary flat
      | Some p \<Rightarrow>
          (case index_of (boundaryChildren D flat p) child of
             None \<Rightarrow> unsetBoundary flat
           | Some i \<Rightarrow>
               \<lparr>boundaryContainer = Some p, boundaryOffset = of_nat (Suc i),
                boundaryIsFlat = flat\<rparr>))"

definition StartOfParent :: "node \<Rightarrow> bool \<Rightarrow> RawRangeBoundary" where
  "StartOfParent c flat = \<lparr>boundaryContainer = Some c, boundaryOffset = 0, boundaryIsFlat = flat\<rparr>"

definition EndOfParent :: "dom \<Rightarrow> node \<Rightarrow> bool \<Rightarrow> RawRangeBoundary" where
  "EndOfParent D c flat =
     \<lparr>boundaryContainer = Some c,
      boundaryOffset = of_nat (if IsText D c then length (textData D c)
                               else length (boundaryChildren D flat c)),
      boundaryIsFlat = flat\<rparr>"

text \<open>
  The nodes reached from a node by \<open>GetPreviousSibling\<close>, nearest first, and by
  \<open>GetNextSibling\<close>.
\<close>

definition previousSiblings :: "dom \<Rightarrow> node \<Rightarrow> node list" where
  "previousSiblings D x =
     (case GetParentNode D x of
        None \<Rightarrow> []
      | Some p \<Rightarrow>
          if x \<in> set (childNodes D p)
          then rev (takeWhile (\<lambda>y. y \<noteq> x) (childNodes D p)) else [])"

definition nextSiblings :: "dom \<Rightarrow> node \<Rightarrow> node list" where
  "nextSiblings D x =
     (case GetParentNode D x of
        None \<Rightarrow> []
      | Some p \<Rightarrow> drop 1 (dropWhile (\<lambda>y. y \<noteq> x) (childNodes D p)))"

text \<open>
  Modelled from the spec: whitespace-only text does not count as significant. The
  space characters are space, tab, line feed, form feed and carriage return; a node
  that is not text is never whitespace only.
\<close>

definition IsSpaceCharacter :: "char16 \<Rightarrow> bool" where
  "IsSpaceCharacter c = (c = 32 \<or> c = 9 \<or> c = 10 \<or> c = 12 \<or> c = 13)"

definition TextIsOnlyWhitespace :: "dom \<Rightarrow> node \<Rightarrow> bool" where
  "TextIsOnlyWhitespace D n = (IsText D n \<and> list_all IsSpaceCharacter (textData D n))"

definition TextStartsWithOnlyWhitespace :: "dom \<Rightarrow> node \<Rightarrow> nat \<Rightarrow> bool" where
  "TextStartsWithOnlyWhitespace D n off = list_all IsSpaceCharacter (take off (textData D n))"

definition TextEndsWithOnlyWhitespace :: "dom \<Rightarrow> node \<Rightarrow> nat \<Rightarrow> bool" where
  "TextEndsWithOnlyWhitespace D n off = list_all IsSpaceCharacter (drop off (textData D n))"

section \<open>nsHTMLCopyEncoder: range promotion\<close>

text \<open>
  A \<open>Result\<close> is an error or a value; \<open>Faults\<close> is the dereference of a null
  pointer, where the source only asserts in debug builds that the pointer is set.
\<close>

datatype 'a result = Err nsresult | Ok 'a | Faults


record RangeInNode =
  mContainer :: node
  mStartOffset :: "32 word"
  mEndOffset :: "32 word"
  mTreeKindIsFlat :: bool

definition StartRef :: "RangeInNode \<Rightarrow> RawRangeBoundary" where
  "StartRef r = \<lparr>boundaryContainer = Some (mContainer r), boundaryOffset = mStartOffset r,
                 boundaryIsFlat = mTreeKindIsFlat r\<rparr>"

definition EndRef :: "RangeInNode \<Rightarrow> RawRangeBoundary" where
  "EndRef r = \<lparr>boundaryContainer = Some (mContainer r), boundaryOffset = mEndOffset r,
               boundaryIsFlat = mTreeKindIsFlat r\<rparr>"

definition GetTreeKindIsFlat :: "encoder \<Rightarrow> bool" where
  "GetTreeKindIsFlat s = (AllowCrossShadowBoundary \<in> mFlags s)"

definition IsMozBR :: "dom \<Rightarrow> node \<Rightarrow> bool" where
  "IsMozBR D n = (IsHTMLElement D n ''br'' \<and> IsPaddingForEmptyLastLine D n)"

definition IsRoot :: "env \<Rightarrow> encoder \<Rightarrow> node option \<Rightarrow> bool" where
  "IsRoot E s aNode =
     (case FromNodeOrNull (tree E) aNode of
        None \<Rightarrow> False
      | Some content \<Rightarrow>
          if mIsTextWidget s then IsHTMLElement (tree E) content ''div''
          else IsAnyOfHTMLElements (tree E) content [''body'', ''td'', ''th'', ''slot''])"

definition ComputeIndexOfContent :: "dom \<Rightarrow> node \<Rightarrow> node \<Rightarrow> bool \<Rightarrow> nat option" where
  "ComputeIndexOfContent D aParent aChild flat =
     (if \<not> flat then ComputeIndexOf D aParent aChild
      else if GetShadowRoot D aParent \<noteq> None \<and> GetShadowRootForSelection D aParent = None
      then ComputeIndexOf D aParent aChild
      else ComputeFlatTreeIndexOf D aParent aChild)"

text \<open>
  \<open>GetParentPoint\<close>: an error, or the point of the container in its parent, which
  is unset when the index of the container cannot be resolved.
\<close>

definition GetParentPoint :: "dom \<Rightarrow> RawRangeBoundary \<Rightarrow> RawRangeBoundary result" where
  "GetParentPoint D aPoint =
     (case FromNodeOrNull D (boundaryContainer aPoint) of
        None \<Rightarrow> Err NS_ERROR_NULL_POINTER
      | Some containerContent \<Rightarrow>
          if boundaryIsFlat aPoint \<and> isShadowRoot D containerContent then
            (case GetHost D containerContent of
               None \<Rightarrow> Err NS_ERROR_NULL_POINTER
             | Some host \<Rightarrow> Ok (FromChild D host (boundaryIsFlat aPoint)))
          else
            (case boundaryParent D (boundaryIsFlat aPoint) containerContent of
               None \<Rightarrow> Err NS_ERROR_NULL_POINTER
             | Some containerParentNode \<Rightarrow>
                 (case ComputeIndexOfContent D containerParentNode containerContent
                         (boundaryIsFlat aPoint) of
                    None \<Rightarrow> Ok (unsetBoundary (boundaryIsFlat aPoint))
                  | Some indexOfContainer \<Rightarrow>
                      Ok \<lparr>boundaryContainer = Some containerParentNode,
                          boundaryOffset = of_nat indexOfContainer,
                          boundaryIsFlat = boundaryIsFlat aPoint\<rparr>)))"

definition ChildIsFirstNode :: "dom \<Rightarrow> RawRangeBoundary \<Rightarrow> bool" where
  "ChildIsFirstNode D aPoint =
     (if boundaryIsFlat aPoint
         \<and> (case boundaryContainer aPoint of
               None \<Rightarrow> False | Some c \<Rightarrow> IsSlot D c \<and> AssignedNodes D c \<noteq> [])
      then
        (case boundaryContainer aPoint of
           None \<Rightarrow> True
         | Some c \<Rightarrow>
             list_all (\<lambda>sibling. \<not> (IsContent D sibling \<and> \<not> TextIsOnlyWhitespace D sibling))
               (rev (take (unat (boundaryOffset aPoint)) (AssignedNodes D c))))
      else
        (case GetPreviousSiblingOfChildAtOffset D aPoint of
           None \<Rightarrow> True
         | Some sibling \<Rightarrow>
             list_all (\<lambda>x. TextIsOnlyWhitespace D x) (sibling # previousSiblings D sibling)))"

definition ChildIsSignificantAtEnd :: "dom \<Rightarrow> node \<Rightarrow> bool" where
  "ChildIsSignificantAtEnd D aContent =
     (if IsElement D aContent \<and> IsMozBR D aContent then False
      else \<not> TextIsOnlyWhitespace D aContent)"

definition ChildIsLastNode :: "dom \<Rightarrow> RawRangeBoundary \<Rightarrow> bool" where
  "ChildIsLastNode D aPoint =
     (if boundaryIsFlat aPoint
         \<and> (case boundaryContainer aPoint of
               None \<Rightarrow> False | Some c \<Rightarrow> IsSlot D c \<and> AssignedNodes D c \<noteq> [])
      then
        (case boundaryContainer aPoint of
           None \<Rightarrow> True
         | Some c \<Rightarrow>
             list_all (\<lambda>sibling. \<not> (IsContent D sibling \<and> ChildIsSignificantAtEnd D sibling))
               (drop (Suc (unat (boundaryOffset aPoint))) (AssignedNodes D c)))
      else
        (case GetNextSiblingOfChildAtOffset D aPoint of
           None \<Rightarrow> True
         | Some sibling \<Rightarrow>
             list_all (\<lambda>x. \<not> ChildIsSignificantAtEnd D x) (sibling # nextSiblings D sibling)))"

text \<open>
  The pending reset is dropped once the climb crosses a block-level HTML element:
  the first statement of both \<open>while\<close> loops.
\<close>

definition resetAfterBlock :: "dom \<Rightarrow> RawRangeBoundary \<Rightarrow> bool \<Rightarrow> bool" where
  "resetAfterBlock D point resetPromotion =
     (if resetPromotion then
        (case FromNodeOrNull D (boundaryContainer point) of
           None \<Rightarrow> True
         | Some parentContent \<Rightarrow>
             \<not> (IsElement D parentContent \<and> htmlName D parentContent \<noteq> None
                  \<and> IsBlock D parentContent))
      else False)"

text \<open>
  The \<open>while\<close> loop of \<open>GetPromotedStartPoint\<close>; each turn climbs one level and
  takes one unit of the bound. The result is the point and the pending reset.
\<close>

fun GetPromotedStartPoint_loop ::
  "env \<Rightarrow> encoder \<Rightarrow> nat \<Rightarrow> bool \<Rightarrow> node option \<Rightarrow> RawRangeBoundary \<Rightarrow> bool
     \<Rightarrow> (RawRangeBoundary \<times> bool) result option" where
  "GetPromotedStartPoint_loop E s 0 aPointIsFlat aCommon point resetPromotion = None"
| "GetPromotedStartPoint_loop E s (Suc fuel) aPointIsFlat aCommon point resetPromotion =
     (if boundaryContainer point \<noteq> aCommon \<and> \<not> IsRoot E s (boundaryContainer point)
         \<and> ChildIsFirstNode (tree E) point
      then
        (case GetParentPoint (tree E) point of
           Err e \<Rightarrow> Some (Err e)
         | Faults \<Rightarrow> Some Faults
         | Ok parentPoint \<Rightarrow>
             if \<not> IsSet parentPoint
             then (case boundaryContainer point of
                     None \<Rightarrow> Some Faults
                   | Some c \<Rightarrow>
                       Some (Ok (StartOfParent c aPointIsFlat,
                                 resetAfterBlock (tree E) point resetPromotion)))
             else GetPromotedStartPoint_loop E s fuel aPointIsFlat aCommon parentPoint
                    (resetAfterBlock (tree E) point resetPromotion))
      else Some (Ok (point, resetPromotion)))"

text \<open>
  The part of \<open>GetPromotedStartPoint\<close> before the loop: it returns at once
  (\<open>Inl\<close>) or goes on with a point and a reset flag (\<open>Inr\<close>).
\<close>

definition GetPromotedStartPoint_entry ::
  "env \<Rightarrow> RawRangeBoundary \<Rightarrow> node option
     \<Rightarrow> RawRangeBoundary result + RawRangeBoundary \<times> bool" where
  "GetPromotedStartPoint_entry E aPoint aCommon =
     (if aCommon = boundaryContainer aPoint then Inl (Ok aPoint)
      else
        (case boundaryContainer aPoint of
           None \<Rightarrow> Inl Faults
         | Some c \<Rightarrow>
             if IsText (tree E) c then
               (if \<not> IsStartOfContainer aPoint
                   \<and> \<not> TextStartsWithOnlyWhitespace (tree E) c (unat (boundaryOffset aPoint))
                then Inl (Ok aPoint)
                else
                  (case GetParentPoint (tree E) aPoint of
                     Err e \<Rightarrow> Inl (Err e)
                   | Faults \<Rightarrow> Inl Faults
                   | Ok point \<Rightarrow>
                       if \<not> IsSet point then Inl (Ok aPoint)
                       else if boundaryContainer point = aCommon then Inl (Ok aPoint)
                       else Inr (point, \<not> IsStartOfContainer aPoint)))
             else if HasChildNodes (tree E) c \<and> \<not> IsEndOfContainer (tree E) aPoint
             then Inr (aPoint, False)
             else
               (case GetParentPoint (tree E) aPoint of
                  Err e \<Rightarrow> Inl (Err e)
                | Faults \<Rightarrow> Inl Faults
                | Ok point \<Rightarrow>
                    if \<not> IsSet point then Inl (Ok aPoint) else Inr (point, False))))"

definition GetPromotedStartPoint ::
  "env \<Rightarrow> encoder \<Rightarrow> nat \<Rightarrow> RawRangeBoundary \<Rightarrow> node option
     \<Rightarrow> RawRangeBoundary result option" where
  "GetPromotedStartPoint E s fuel aPoint aCommon =
     (case GetPromotedStartPoint_entry E aPoint aCommon of
        Inl finished \<Rightarrow> Some finished
      | Inr (point, resetPromotion) \<Rightarrow>
          if IsRoot E s (GetChildAtOffset (tree E) point) then Some (Ok aPoint)
          else
            (case GetPromotedStartPoint_loop E s fuel (boundaryIsFlat aPoint) aCommon point
                    resetPromotion of
               None \<Rightarrow> None
             | Some (Err e) \<Rightarrow> Some (Err e)
             | Some Faults \<Rightarrow> Some Faults
             | Some (Ok (p, reset)) \<Rightarrow> Some (Ok (if reset then aPoint else p))))"

text \<open>
  \<open>ShadowDOMSelectionHelpers::GetShadowRoot\<close> of the parent of a container, which
  may be missing: the parent is dereferenced only when crossing is allowed and the
  preference is on.
\<close>

definition shadowRootOfParent :: "env \<Rightarrow> encoder \<Rightarrow> RawRangeBoundary \<Rightarrow> node \<Rightarrow> node option result" where
  "shadowRootOfParent E s point c =
     (case (if boundaryIsFlat point then GetFlattenedTreeParentNodeForSelection (tree E) c
            else GetParent (tree E) c) of
        None \<Rightarrow>
          if dom_shadowdom_selection_across_boundary_enabled E
             \<and> GetAllowRangeCrossShadowBoundary (mFlags s)
          then Faults else Ok None
      | Some p \<Rightarrow> Ok (SelectionGetShadowRoot E p (GetAllowRangeCrossShadowBoundary (mFlags s))))"

text \<open>The \<open>while\<close> loop of \<open>GetPromotedEndPoint\<close>.\<close>

fun GetPromotedEndPoint_loop ::
  "env \<Rightarrow> encoder \<Rightarrow> nat \<Rightarrow> node option \<Rightarrow> RawRangeBoundary \<Rightarrow> bool
     \<Rightarrow> (RawRangeBoundary \<times> bool) result option" where
  "GetPromotedEndPoint_loop E s 0 aCommon point resetPromotion = None"
| "GetPromotedEndPoint_loop E s (Suc fuel) aCommon point resetPromotion =
     (if boundaryContainer point \<noteq> aCommon \<and> \<not> IsRoot E s (boundaryContainer point)
         \<and> ChildIsLastNode (tree E) point
      then
        (case GetParentPoint (tree E) point of
           Err e \<Rightarrow> Some (Err e)
         | Faults \<Rightarrow> Some Faults
         | Ok parentPoint \<Rightarrow>
             if IsSet parentPoint
             then GetPromotedEndPoint_loop E s fuel aCommon parentPoint
                    (resetAfterBlock (tree E) point resetPromotion)
             else
               (case boundaryContainer point of
                  None \<Rightarrow> Some Faults
                | Some c \<Rightarrow>
                    (case shadowRootOfParent E s point c of
                       Err e \<Rightarrow> Some (Err e)
                     | Faults \<Rightarrow> Some Faults
                     | Ok shadowRoot \<Rightarrow>
                         if shadowRoot = Some c then Some (Err NS_ERROR_FAILURE)
                         else Some (Ok (StartOfParent c (boundaryIsFlat point),
                                        resetAfterBlock (tree E) point resetPromotion)))))
      else Some (Ok (point, resetPromotion)))"

definition GetPromotedEndPoint_entry ::
  "env \<Rightarrow> RawRangeBoundary \<Rightarrow> node option
     \<Rightarrow> RawRangeBoundary result + RawRangeBoundary \<times> bool" where
  "GetPromotedEndPoint_entry E aPoint aCommon =
     (if aCommon = boundaryContainer aPoint then Inl (Ok aPoint)
      else
        (case boundaryContainer aPoint of
           None \<Rightarrow> Inl Faults
         | Some c \<Rightarrow>
             if IsText (tree E) c then
               (if \<not> IsEndOfContainer (tree E) aPoint
                   \<and> \<not> TextEndsWithOnlyWhitespace (tree E) c (unat (boundaryOffset aPoint))
                then Inl (Ok aPoint)
                else
                  (case GetParentPoint (tree E) aPoint of
                     Err e \<Rightarrow> Inl (Err e)
                   | Faults \<Rightarrow> Inl Faults
                   | Ok point \<Rightarrow>
                       if \<not> IsSet point then Inl (Ok aPoint)
                       else if boundaryContainer point = aCommon then Inl (Ok aPoint)
                       else Inr (point, \<not> IsEndOfContainer (tree E) aPoint)))
             else if HasChildNodes (tree E) c then
               (if IsStartOfContainer aPoint then Inr (aPoint, False)
                else
                  (case GetPreviousSiblingOfChildAtOffset (tree E) aPoint of
                     None \<Rightarrow> Inl (Err NS_ERROR_FAILURE)
                   | Some previousSibling \<Rightarrow>
                       Inr (FromChild (tree E) previousSibling (boundaryIsFlat aPoint), False)))
             else
               (case GetParentPoint (tree E) aPoint of
                  Err e \<Rightarrow> Inl (Ok (unsetBoundary (boundaryIsFlat aPoint)))
                | Faults \<Rightarrow> Inl Faults
                | Ok point \<Rightarrow>
                    if \<not> IsSet point then Inl (Ok aPoint) else Inr (point, False))))"

definition GetPromotedEndPoint ::
  "env \<Rightarrow> encoder \<Rightarrow> nat \<Rightarrow> RawRangeBoundary \<Rightarrow> node option
     \<Rightarrow> RawRangeBoundary result option" where
  "GetPromotedEndPoint E s fuel aPoint aCommon =
     (case GetPromotedEndPoint_entry E aPoint aCommon of
        Inl finished \<Rightarrow> Some finished
      | Inr (point, resetPromotion) \<Rightarrow>
          if IsRoot E s (GetChildAtOffset (tree E) point) then Some (Ok aPoint)
          else
            (case GetPromotedEndPoint_loop E s fuel aCommon point resetPromotion of
               None \<Rightarrow> None
             | Some (Err e) \<Rightarrow> Some (Err e)
             | Some Faults \<Rightarrow> Some Faults
             | Some (Ok (p, reset)) \<Rightarrow>
                 if reset then Some (Ok aPoint)
                 else
                   (case GetChildAtOffset (tree E) p of
                      Some childAtOffset \<Rightarrow>
                        Some (Ok (After (tree E) childAtOffset (boundaryIsFlat p)))
                    | None \<Rightarrow>
                        (case boundaryContainer p of
                           None \<Rightarrow> Some Faults
                         | Some c \<Rightarrow> Some (Ok (EndOfParent (tree E) c (boundaryIsFlat p)))))))"

text \<open>
  \<open>PromoteAncestorChain\<close>: the loop climbs one level per turn, as long as both
  ends land on the parent and the parent is as editable as the first container.
\<close>

fun PromoteAncestorChain_loop ::
  "env \<Rightarrow> encoder \<Rightarrow> nat \<Rightarrow> RangeInNode \<Rightarrow> RangeInNode \<Rightarrow> RangeInNode result option" where
  "PromoteAncestorChain_loop E s 0 aRangeInNode rangeInNode = None"
| "PromoteAncestorChain_loop E s (Suc fuel) aRangeInNode rangeInNode =
     (case boundaryParent (tree E) (mTreeKindIsFlat rangeInNode) (mContainer rangeInNode) of
        None \<Rightarrow> Some (Ok rangeInNode)
      | Some parentNode \<Rightarrow>
          (case GetPromotedStartPoint E s fuel (StartRef rangeInNode) (Some parentNode) of
             None \<Rightarrow> None
           | Some (Err e) \<Rightarrow> Some (Err NS_ERROR_FAILURE)
           | Some Faults \<Rightarrow> Some Faults
           | Some (Ok promotedStartPoint) \<Rightarrow>
               (case GetPromotedEndPoint E s fuel (EndRef rangeInNode) (Some parentNode) of
                  None \<Rightarrow> None
                | Some (Err e) \<Rightarrow> Some (Err NS_ERROR_FAILURE)
                | Some Faults \<Rightarrow> Some Faults
                | Some (Ok promotedEndPoint) \<Rightarrow>
                    if boundaryContainer promotedStartPoint \<noteq> Some parentNode
                       \<or> boundaryContainer promotedEndPoint \<noteq> Some parentNode
                       \<or> IsEditable (tree E) parentNode
                            \<noteq> IsEditable (tree E) (mContainer aRangeInNode)
                    then Some (Ok rangeInNode)
                    else PromoteAncestorChain_loop E s fuel aRangeInNode
                           (rangeInNode\<lparr>mContainer := parentNode,
                              mStartOffset := boundaryOffset promotedStartPoint,
                              mEndOffset := boundaryOffset promotedEndPoint\<rparr>))))"

definition PromoteAncestorChain ::
  "env \<Rightarrow> encoder \<Rightarrow> nat \<Rightarrow> RangeInNode \<Rightarrow> RangeInNode result option" where
  "PromoteAncestorChain E s fuel aRangeInNode =
     PromoteAncestorChain_loop E s fuel aRangeInNode aRangeInNode"

text \<open>
  \<open>PromoteRange\<close> up to the comment \<open>set the range to the new values\<close>: the
  promoted start and end, or the error that \<open>PromoteRange\<close> returns.
\<close>

definition PromoteRange_points ::
  "env \<Rightarrow> encoder \<Rightarrow> nat \<Rightarrow> nsRange \<Rightarrow> (RawRangeBoundary \<times> RawRangeBoundary) result option" where
  "PromoteRange_points E s fuel inRange =
     (if \<not> mIsPositioned inRange then Some (Err NS_ERROR_UNEXPECTED)
      else
        (let startRef =
               (let ref = MayCrossShadowBoundaryStartRef inRange in
                if GetTreeKindIsFlat s \<and> \<not> boundaryIsFlat ref
                then AsRangeBoundaryInFlatTree E ref (Collapsed inRange) True else ref);
             endRef =
               (let ref = MayCrossShadowBoundaryEndRef inRange in
                if GetTreeKindIsFlat s \<and> \<not> boundaryIsFlat ref
                then AsRangeBoundaryInFlatTree E ref (Collapsed inRange) False else ref);
             commonAncestor = GetClosestCommonInclusiveAncestor E inRange True
         in
           (case GetPromotedStartPoint E s fuel startRef commonAncestor of
              None \<Rightarrow> None
            | Some (Err e) \<Rightarrow> Some (Err NS_ERROR_FAILURE)
            | Some Faults \<Rightarrow> Some Faults
            | Some (Ok promotedStartPoint) \<Rightarrow>
                (case GetPromotedEndPoint E s fuel endRef commonAncestor of
                   None \<Rightarrow> None
                 | Some (Err e) \<Rightarrow> Some (Err NS_ERROR_FAILURE)
                 | Some Faults \<Rightarrow> Some Faults
                 | Some (Ok promotedEndPoint) \<Rightarrow>
                     if dom_serializer_includeCommonAncestor_enabled E
                        \<and> boundaryContainer promotedStartPoint = commonAncestor
                        \<and> boundaryContainer promotedEndPoint = commonAncestor
                     then
                       (case commonAncestor of
                          None \<Rightarrow> Some Faults
                        | Some c \<Rightarrow>
                            (case PromoteAncestorChain E s fuel
                                    \<lparr>mContainer = c,
                                     mStartOffset = boundaryOffset promotedStartPoint,
                                     mEndOffset = boundaryOffset promotedEndPoint,
                                     mTreeKindIsFlat = boundaryIsFlat promotedStartPoint\<rparr> of
                               None \<Rightarrow> None
                             | Some (Err e) \<Rightarrow> Some (Err e)
                             | Some Faults \<Rightarrow> Some Faults
                             | Some (Ok promotedRange) \<Rightarrow>
                                 Some (Ok (StartRef promotedRange, EndRef promotedRange))))
                     else Some (Ok (promotedStartPoint, promotedEndPoint))))))"


section \<open>A concrete document\<close>

text \<open>
  The document \<open><body><p>Hello <b>world</b>!</p></body>\<close> for evaluation: node 0 is
  the document, 1 \<open>body\<close>, 2 \<open>p\<close>, 3 the text \<open>Hello \<close>, 4 \<open>b\<close>, 5 the
  text \<open>world\<close>, 6 the text \<open>!\<close>. The helpers of the host that compute ancestor
  chains and the common ancestor of a range follow the parent pointers, at most 16
  levels up.
\<close>

fun hostInclusiveAncestors :: "dom \<Rightarrow> nat \<Rightarrow> node option \<Rightarrow> node list" where
  "hostInclusiveAncestors D 0 n = []"
| "hostInclusiveAncestors D (Suc k) None = []"
| "hostInclusiveAncestors D (Suc k) (Some n) = n # hostInclusiveAncestors D k (GetParentNode D n)"

fun hostAncestorOffsets :: "dom \<Rightarrow> nat \<Rightarrow> node \<Rightarrow> (node \<times> 32 word option) list" where
  "hostAncestorOffsets D 0 child = []"
| "hostAncestorOffsets D (Suc k) child =
     (case GetParent D child of
        None \<Rightarrow> []
      | Some p \<Rightarrow> (p, map_option of_nat (ComputeIndexOf D p child)) # hostAncestorOffsets D k p)"

definition hostInclusiveAncestorsAndOffsets ::
  "dom \<Rightarrow> node \<Rightarrow> 32 word \<Rightarrow> (node \<times> 32 word option) list" where
  "hostInclusiveAncestorsAndOffsets D n off =
     (if IsContent D n then (n, Some off) # hostAncestorOffsets D 16 n else [])"

definition hostCommonAncestor :: "dom \<Rightarrow> nsRange \<Rightarrow> bool \<Rightarrow> node option" where
  "hostCommonAncestor D r allow =
     (case filter (\<lambda>a. a \<in> set (hostInclusiveAncestors D 16 (boundaryContainer (mEnd r))))
             (hostInclusiveAncestors D 16 (boundaryContainer (mStart r))) of
        [] \<Rightarrow> None | a # _ \<Rightarrow> Some a)"

definition demo_dom :: dom where
  "demo_dom =
     \<lparr>NodeType = (\<lambda>n. if n = 0 then DOCUMENT_NODE
                       else if n = 3 \<or> n = 5 \<or> n = 6 then TEXT_NODE else ELEMENT_NODE),
      htmlName = (\<lambda>n. if n = 1 then Some ''body'' else if n = 2 then Some ''p''
                       else if n = 4 then Some ''b'' else None),
      isShadowRoot = (\<lambda>n. False),
      GetParentNode = (\<lambda>n. if n = 1 then Some 0 else if n = 2 then Some 1
                            else if n = 3 \<or> n = 4 \<or> n = 6 then Some 2
                            else if n = 5 then Some 4 else None),
      childNodes = (\<lambda>n. if n = 0 then [1] else if n = 1 then [2]
                         else if n = 2 then [3, 4, 6] else if n = 4 then [5] else []),
      GetHost = (\<lambda>n. None),
      GetShadowRoot = (\<lambda>n. None),
      GetShadowRootForSelection = (\<lambda>n. None),
      templateContent = (\<lambda>n. None),
      AssignedNodes = (\<lambda>n. []),
      GetFlattenedTreeParentNodeForSelection =
        (\<lambda>n. if n = 1 then Some 0 else if n = 2 then Some 1
              else if n = 3 \<or> n = 4 \<or> n = 6 then Some 2
              else if n = 5 then Some 4 else None),
      flatChildNodes = (\<lambda>n. if n = 0 then [1] else if n = 1 then [2]
                         else if n = 2 then [3, 4, 6] else if n = 4 then [5] else []),
      textData = (\<lambda>n. if n = 3 then [72, 101, 108, 108, 111, 32]
                       else if n = 5 then [119, 111, 114, 108, 100]
                       else if n = 6 then [33] else []),
      GetPrimaryFrame = (\<lambda>n. True),
      IsDisplayContents = (\<lambda>n. False),
      frameStyleIsVisible = (\<lambda>n. True),
      IsHiddenByContentVisibilityOnAnyAncestor = (\<lambda>n. False),
      frameIsSelectable = (\<lambda>n. True),
      IsInvisibleBreak = (\<lambda>n. False),
      IsEditable = (\<lambda>n. False),
      IsEditingHost = (\<lambda>n. False),
      IsPaddingForEmptyLastLine = (\<lambda>n. False),
      IsBlock = (\<lambda>n. n = 1 \<or> n = 2)\<rparr>"

definition demo_env :: env where
  "demo_env =
     \<lparr>tree = demo_dom,
      serializerAnswer = (\<lambda>h. NS_OK),
      GetOutputLength = (\<lambda>h. (NS_OK, of_nat (length h))),
      needsPreformatScanning = (\<lambda>h. False),
      serializerOutput = (\<lambda>h. []),
      FixupNode = (\<lambda>n. (None, False)),
      streamerEnv = failing_stream_env,
      createSerializer = (\<lambda>m. True),
      stringBufferAlloc = True,
      outputBufferIsReusable = (\<lambda>h. True),
      isHTMLCopyEncoder = False,
      dom_shadowdom_selection_across_boundary_enabled = False,
      dom_serializer_includeCommonAncestor_enabled = True,
      GetClosestCommonInclusiveAncestor = hostCommonAncestor demo_dom,
      GetInclusiveAncestors = hostInclusiveAncestors demo_dom 16,
      GetInclusiveAncestorsAndOffsets = hostInclusiveAncestorsAndOffsets demo_dom,
      GetFlattenedTreeAncestorsAndOffsets = hostInclusiveAncestorsAndOffsets demo_dom,
      rangeSetStart = (\<lambda>r b allow. (NS_OK, r\<lparr>mStart := b\<rparr>)),
      rangeSetEnd = (\<lambda>r b allow. (NS_OK, r\<lparr>mEnd := b\<rparr>)),
      AsRangeBoundaryInFlatTree = (\<lambda>b collapsed isStart. b\<lparr>boundaryIsFlat := True\<rparr>),
      AsRangeBoundaryInDOMTree = (\<lambda>b. b\<lparr>boundaryIsFlat := False\<rparr>)\<rparr>"

definition demo_encoder :: encoder where
  "demo_encoder =
     \<lparr>mDocument = Some 0,
      mEncodingScope = emptyScope,
      mSerializer = True,
      serializerCalls = [],
      mTextStreamer = None,
      mNodeFixup = False,
      mMimeType = ''text/html'',
      mEncoding = True,
      mFlags = {},
      mWrapColumn = 72,
      mNeedsPreformatScanning = False,
      mIsCopying = False,
      mCachedBuffer = False,
      mDisableContextSerialize = False,
      mRangeContexts = [],
      mClosestCommonInclusiveAncestorOfRange = None,
      mCommonInclusiveAncestors = [],
      mContextInfoDepthStart = 0,
      mContextInfoDepthEnd = 0,
      mInclusiveAncestorsOfStart = [],
      mInclusiveAncestorsOffsetsOfStart = [],
      mInclusiveAncestorsOfEnd = [],
      mInclusiveAncestorsOffsetsOfEnd = [],
      mStartRootIndex = 0,
      mEndRootIndex = 0,
      mHaltRangeHint = False,
      mAllowCrossShadowBoundary = False,
      mIsTextWidget = False\<rparr>"

definition demo_range :: "node \<Rightarrow> nat \<Rightarrow> node \<Rightarrow> nat \<Rightarrow> nsRange" where
  "demo_range sc so ec eo =
     \<lparr>mIsPositioned = True,
      mStart = \<lparr>boundaryContainer = Some sc, boundaryOffset = of_nat so, boundaryIsFlat = False\<rparr>,
      mEnd = \<lparr>boundaryContainer = Some ec, boundaryOffset = of_nat eo, boundaryIsFlat = False\<rparr>,
      mCrossShadowBoundaryRange = None\<rparr>"


text \<open>The state an outcome leaves behind, if the call returned.\<close>

definition finalState :: "outcome option \<Rightarrow> encoder option" where
  "finalState r = (case r of Some (Returns rv s) \<Rightarrow> Some s | _ \<Rightarrow> None)"

text \<open>
  The state in which the walk of the range from offset 2 of the text \<open>Hello \<close> to
  offset 1 of the text \<open>!\<close> starts, and an encoder whose scope is a node.
\<close>

definition demo_walk_state :: encoder where
  "demo_walk_state = prepareRange demo_env (Some 2) 3 2 6 1 demo_encoder"

definition node_scope_encoder :: "node \<Rightarrow> bool \<Rightarrow> encoder" where
  "node_scope_encoder n isContainer =
     demo_encoder\<lparr>mEncodingScope := emptyScope\<lparr>mNode := Some n, mNodeIsContainer := isContainer\<rparr>\<rparr>"

text \<open>
  An encoder whose scope is a selection of two ranges: from offset 1 of the text
  \<open>world\<close> to offset 1 of the text \<open>!\<close>, then offsets 1 to 3 of the text
  \<open>Hello \<close>.
\<close>

definition selection_encoder :: encoder where
  "selection_encoder =
     demo_encoder\<lparr>mEncodingScope :=
       emptyScope\<lparr>mSelection := Some [demo_range 5 1 6 1, demo_range 3 1 3 3]\<rparr>\<rparr>"

text \<open>
  Collaborators for evaluating \<open>EncodeToStream\<close>: a stream that accepts every write
  and a serializer that fails on the start tag of \<open>p\<close>.
\<close>

definition accepting_stream_env :: streamer_env where
  "accepting_stream_env =
     \<lparr>EncodeFromUTF16WithoutReplacement = low_byte_encoder,
      EncodeFromUTF16 = low_byte_encoder,
      streamWrite = (\<lambda>ws. NS_OK)\<rparr>"

definition failing_serializer_env :: env where
  "failing_serializer_env =
     demo_env\<lparr>serializerAnswer :=
                 (\<lambda>h. if h \<noteq> [] \<and> last h = AppendElementStart 2 2
                      then NS_ERROR_EXTERNAL 7 else NS_OK),
               streamerEnv := accepting_stream_env\<rparr>"

definition streaming_encoder :: encoder where
  "streaming_encoder =
     demo_encoder\<lparr>mTextStreamer :=
       Some \<lparr>mIsPlainText = False, mUnicodeEncoder = 0, mStreamWrites = [],
             mOutputBuffer = []\<rparr>\<rparr>"






section \<open>The text a serializer is asked to emit\<close>

text \<open>
  Modelled from the spec: the content serializer is not under \<open>src/\<close>; its
  \<open>append_text(text_node, start_offset, end_offset)\<close> renders the characters of the
  text node from the start offset up to the end offset, where the end offset \<open>-1\<close>
  that the encoder passes for a whole node stands for the end of the text.
\<close>

definition textWindow :: "char16 list \<Rightarrow> int \<Rightarrow> int \<Rightarrow> char16 list" where
  "textWindow txt aStartOffset aEndOffset =
     (let endoffset = (if aEndOffset = - 1 then int (length txt)
                       else min aEndOffset (int (length txt)))
      in if endoffset - aStartOffset \<le> 0 then []
         else take (nat (endoffset - aStartOffset)) (drop (nat aStartOffset) txt))"


fun emittedTextOf :: "dom \<Rightarrow> ser_call \<Rightarrow> char16 list" where
  "emittedTextOf D (AppendText n a b) = textWindow (textData D n) a b"
| "emittedTextOf D (AppendCDATASection n a b) = textWindow (textData D n) a b"
| "emittedTextOf D c = []"

definition emittedText :: "dom \<Rightarrow> ser_call list \<Rightarrow> char16 list" where
  "emittedText D calls = concat (map (emittedTextOf D) calls)"



section \<open>Properties of the TextStreamer\<close>

lemma encodes_textD:
  assumes "encodes_text E plain whole"
    and "(if plain
          then EncodeFromUTF16WithoutReplacement E es src (kEncoderBufferSizeInBytes - 1)
          else EncodeFromUTF16 E es src (kEncoderBufferSizeInBytes - 1)) = (r, n, w, es1)"
  shows "(r = kInputEmpty
            \<and> whole es src = (if plain \<and> r \<noteq> kInputEmpty \<and> r \<noteq> kOutputFull then w @ [63] else w))
         \<or> (r \<noteq> kInputEmpty \<and> 0 < n \<and> src \<noteq> []
            \<and> whole es src = (if plain \<and> r \<noteq> kInputEmpty \<and> r \<noteq> kOutputFull then w @ [63] else w)
                 @ whole es1 (drop n src))"
proof -
  from assms(1) have "let call = (if plain
                     then EncodeFromUTF16WithoutReplacement E es src (kEncoderBufferSizeInBytes - 1)
                     else EncodeFromUTF16 E es src (kEncoderBufferSizeInBytes - 1));
             result = fst call;
             nread = fst (snd call);
             written = fst (snd (snd call));
             es' = snd (snd (snd call));
             chunk = (if plain \<and> result \<noteq> kInputEmpty \<and> result \<noteq> kOutputFull
                      then written @ [63] else written)
         in (result = kInputEmpty \<and> whole es src = chunk)
            \<or> (result \<noteq> kInputEmpty \<and> 0 < nread \<and> src \<noteq> []
                 \<and> whole es src = chunk @ whole es' (drop nread src))"
    unfolding encodes_text_def by blast
  then show ?thesis
    unfolding assms(2) Let_def fst_conv snd_conv .
qed


lemma EncodeAndWrite_loop_writes_text:
  assumes "encodes_text E plain whole"
  shows "\<exists>rv es' new. EncodeAndWrite_loop E plain src es ws = Some (rv, es', ws @ new)
           \<and> new \<noteq> []
           \<and> (if NS_FAILED rv
               then rv = streamWrite E (ws @ new) \<and> (\<exists>rest. whole es src = concat new @ rest)
               else concat new = whole es src)"
  using assms
proof (induction "length src" arbitrary: src es ws rule: less_induct)
  case less
  let ?call = "(if plain
      then EncodeFromUTF16WithoutReplacement E es src (kEncoderBufferSizeInBytes - 1)
      else EncodeFromUTF16 E es src (kEncoderBufferSizeInBytes - 1))"
  obtain r n w es1 where call: "?call = (r, n, w, es1)"
    by (cases ?call) auto
  let ?w = "if plain \<and> r \<noteq> kInputEmpty \<and> r \<noteq> kOutputFull then w @ [63] else w"
  note spec = encodes_textD [OF less.prems call]
  have step: "EncodeAndWrite_loop E plain src es ws =
      (if NS_FAILED (streamWrite E (ws @ [?w])) then Some (streamWrite E (ws @ [?w]), es1, ws @ [?w])
       else if r = kInputEmpty then Some (NS_OK, es1, ws @ [?w])
       else EncodeAndWrite_loop E plain (drop n src) es1 (ws @ [?w]))"
    by (subst EncodeAndWrite_loop.simps) (simp only: call Let_def split_conv)
  show ?case
  proof (cases "NS_FAILED (streamWrite E (ws @ [?w]))")
    case True
    then have run: "EncodeAndWrite_loop E plain src es ws
        = Some (streamWrite E (ws @ [?w]), es1, ws @ [?w])"
      by (simp only: step if_True)
    from spec have "\<exists>rest. whole es src = concat [?w] @ rest"
      by (cases "r = kInputEmpty") simp_all
    with run True show ?thesis
      by (intro exI [of _ "streamWrite E (ws @ [?w])"] exI [of _ es1] exI [of _ "[?w]"])
         (simp only: simp_thms if_True not_Cons_self2 list.distinct)
  next
    case False
    show ?thesis
    proof (cases "r = kInputEmpty")
      case True
      with False have run: "EncodeAndWrite_loop E plain src es ws = Some (NS_OK, es1, ws @ [?w])"
        by (simp add: step)
      from spec True have "concat [?w] = whole es src" by simp
      moreover have "\<not> NS_FAILED NS_OK" by (simp add: NS_FAILED_def)
      ultimately show ?thesis using run
        by (intro exI [of _ NS_OK] exI [of _ es1] exI [of _ "[?w]"])
           (simp only: simp_thms if_False list.distinct)
    next
      case ne: False
      with spec have pos: "0 < n" "src \<noteq> []"
        and w: "whole es src = ?w @ whole es1 (drop n src)" by blast+
      then have "length (drop n src) < length src" by simp
      from less.hyps [OF this less.prems, of es1 "ws @ [?w]"]
      obtain rv es' new where
        run: "EncodeAndWrite_loop E plain (drop n src) es1 (ws @ [?w])
                = Some (rv, es', (ws @ [?w]) @ new)"
        and new: "new \<noteq> []"
        and res: "if NS_FAILED rv
               then rv = streamWrite E ((ws @ [?w]) @ new)
                    \<and> (\<exists>rest. whole es1 (drop n src) = concat new @ rest)
               else concat new = whole es1 (drop n src)"
        by blast
      have run2: "EncodeAndWrite_loop E plain src es ws = Some (rv, es', ws @ (?w # new))"
        using False ne run by (simp only: step if_False append_assoc append_Cons append_Nil)
      have res2: "if NS_FAILED rv
               then rv = streamWrite E (ws @ (?w # new))
                    \<and> (\<exists>rest. whole es src = concat (?w # new) @ rest)
               else concat (?w # new) = whole es src"
      proof (cases "NS_FAILED rv")
        case True
        with res obtain rest where "rv = streamWrite E ((ws @ [?w]) @ new)"
          and "whole es1 (drop n src) = concat new @ rest" by auto
        with True w show ?thesis by simp
      next
        case False
        with res w show ?thesis by simp
      qed
      from run2 res2 show ?thesis
        by (intro exI [of _ rv] exI [of _ es'] exI [of _ "?w # new"])
           (simp only: simp_thms list.distinct)
    qed
  qed
qed

lemma low_byte_encoder_encodes:
  "encodes_text accepting_stream_env plain (\<lambda>es src. map ucast src)"
  unfolding encodes_text_def accepting_stream_env_def low_byte_encoder_def Let_def
    kEncoderBufferSizeInBytes_def
  by (auto simp add: take_map [symmetric] drop_map [symmetric] simp del: take_map drop_map)


lemma ForceFlush_writes_text:
  assumes "encodes_text E (mIsPlainText t) whole"
  shows "\<exists>rv t' new. ForceFlush E t = Some (rv, t') \<and> mOutputBuffer t' = []
           \<and> mStreamWrites t' = mStreamWrites t @ new
           \<and> (new \<noteq> [] \<longleftrightarrow> mOutputBuffer t \<noteq> [])
           \<and> (if NS_FAILED rv
               then rv = streamWrite E (mStreamWrites t')
                    \<and> (\<exists>rest. whole (mUnicodeEncoder t) (mOutputBuffer t) = concat new @ rest)
               else mOutputBuffer t \<noteq> []
                    \<longrightarrow> concat new = whole (mUnicodeEncoder t) (mOutputBuffer t))"
proof (cases "mOutputBuffer t = []")
  case True
  then have "ForceFlush E t = Some (NS_OK, t\<lparr>mOutputBuffer := []\<rparr>)"
    by (simp add: ForceFlush_def EncodeAndWriteAndTruncate_def EncodeAndWrite_def)
  with True show ?thesis
    by (intro exI [of _ NS_OK] exI [of _ "t\<lparr>mOutputBuffer := []\<rparr>"] exI [of _ "[]"])
       (simp add: NS_FAILED_def)
next
  case False
  from EncodeAndWrite_loop_writes_text [OF assms, of "mOutputBuffer t" "mUnicodeEncoder t"
      "mStreamWrites t"]
  obtain rv es' new where
    run: "EncodeAndWrite_loop E (mIsPlainText t) (mOutputBuffer t) (mUnicodeEncoder t)
       (mStreamWrites t) = Some (rv, es', mStreamWrites t @ new)"
    and new: "new \<noteq> []"
    and res: "if NS_FAILED rv
               then rv = streamWrite E (mStreamWrites t @ new)
                    \<and> (\<exists>rest. whole (mUnicodeEncoder t) (mOutputBuffer t) = concat new @ rest)
               else concat new = whole (mUnicodeEncoder t) (mOutputBuffer t)"
    by blast
  let ?t' = "t\<lparr>mUnicodeEncoder := es', mStreamWrites := mStreamWrites t @ new, mOutputBuffer := []\<rparr>"
  from False run have "ForceFlush E t = Some (rv, ?t')"
    by (simp add: ForceFlush_def EncodeAndWriteAndTruncate_def EncodeAndWrite_def)
  moreover have "mOutputBuffer ?t' = []" "mStreamWrites ?t' = mStreamWrites t @ new" by simp_all
  moreover from new False have "new \<noteq> [] \<longleftrightarrow> mOutputBuffer t \<noteq> []" by simp
  moreover from res have "if NS_FAILED rv
               then rv = streamWrite E (mStreamWrites ?t')
                    \<and> (\<exists>rest. whole (mUnicodeEncoder t) (mOutputBuffer t) = concat new @ rest)
               else mOutputBuffer t \<noteq> []
                    \<longrightarrow> concat new = whole (mUnicodeEncoder t) (mOutputBuffer t)"
    by (cases "NS_FAILED rv") simp_all
  ultimately show ?thesis by blast
qed

text \<open>
  C5. \<open>FlushIfStringLongEnough\<close> writes to the byte sink if and only if the buffered
  text is longer than 1024 code units: then it is \<open>ForceFlush\<close>, otherwise it returns
  \<open>NS_OK\<close> and changes nothing. \<open>ForceFlush\<close> encodes and writes the buffered
  text: the chunks it hands to the sink, one after the other, are the encoding of the
  whole buffer when every write succeeds, and the beginning of it up to the chunk whose
  write failed otherwise, the failure being returned. After either flush has run the
  text buffer is empty, whatever the sink answered.
\<close>

theorem TextStreamer_flush_contract:
  assumes "encodes_text E (mIsPlainText t) whole"
  shows "(\<exists>rv t'. FlushIfStringLongEnough E t = Some (rv, t') \<and>
            (length (mStreamWrites t) < length (mStreamWrites t')
               \<longleftrightarrow> 1024 < length (mOutputBuffer t)) \<and>
            (if 1024 < length (mOutputBuffer t)
             then mOutputBuffer t' = [] \<and> FlushIfStringLongEnough E t = ForceFlush E t
             else rv = NS_OK \<and> t' = t)) \<and>
         (\<exists>rv t' new. ForceFlush E t = Some (rv, t') \<and>
            ForceFlush E t = EncodeAndWriteAndTruncate E t \<and>
            mOutputBuffer t' = [] \<and>
            mStreamWrites t' = mStreamWrites t @ new \<and>
            (new \<noteq> [] \<longleftrightarrow> mOutputBuffer t \<noteq> []) \<and>
            (if NS_FAILED rv
             then rv = streamWrite E (mStreamWrites t')
                  \<and> (\<exists>rest. whole (mUnicodeEncoder t) (mOutputBuffer t) = concat new @ rest)
             else mOutputBuffer t \<noteq> []
                  \<longrightarrow> concat new = whole (mUnicodeEncoder t) (mOutputBuffer t)))"
proof -
  from ForceFlush_writes_text [OF assms]
  obtain rv t' new where r: "ForceFlush E t = Some (rv, t')"
    and b: "mOutputBuffer t' = []"
    and w: "mStreamWrites t' = mStreamWrites t @ new"
    and n: "new \<noteq> [] \<longleftrightarrow> mOutputBuffer t \<noteq> []"
    and e: "if NS_FAILED rv
             then rv = streamWrite E (mStreamWrites t')
                  \<and> (\<exists>rest. whole (mUnicodeEncoder t) (mOutputBuffer t) = concat new @ rest)
             else mOutputBuffer t \<noteq> []
                  \<longrightarrow> concat new = whole (mUnicodeEncoder t) (mOutputBuffer t)"
    by blast
  have eq: "ForceFlush E t = EncodeAndWriteAndTruncate E t" by (simp add: ForceFlush_def)
  from r eq b w n e have force: "\<exists>rv t' new. ForceFlush E t = Some (rv, t') \<and>
            ForceFlush E t = EncodeAndWriteAndTruncate E t \<and>
            mOutputBuffer t' = [] \<and>
            mStreamWrites t' = mStreamWrites t @ new \<and>
            (new \<noteq> [] \<longleftrightarrow> mOutputBuffer t \<noteq> []) \<and>
            (if NS_FAILED rv
             then rv = streamWrite E (mStreamWrites t')
                  \<and> (\<exists>rest. whole (mUnicodeEncoder t) (mOutputBuffer t) = concat new @ rest)
             else mOutputBuffer t \<noteq> []
                  \<longrightarrow> concat new = whole (mUnicodeEncoder t) (mOutputBuffer t))"
    by blast
  have flush: "\<exists>rv t'. FlushIfStringLongEnough E t = Some (rv, t') \<and>
            (length (mStreamWrites t) < length (mStreamWrites t')
               \<longleftrightarrow> 1024 < length (mOutputBuffer t)) \<and>
            (if 1024 < length (mOutputBuffer t)
             then mOutputBuffer t' = [] \<and> FlushIfStringLongEnough E t = ForceFlush E t
             else rv = NS_OK \<and> t' = t)"
  proof (cases "1024 < length (mOutputBuffer t)")
    case True
    then have ne: "mOutputBuffer t \<noteq> []" by auto
    from True have same: "FlushIfStringLongEnough E t = ForceFlush E t"
      by (simp add: FlushIfStringLongEnough_def ForceFlush_def kMaxLengthBeforeFlush_def)
    from ne n w have "length (mStreamWrites t) < length (mStreamWrites t')" by simp
    with True same r b show ?thesis by simp
  next
    case False
    then show ?thesis
      by (simp add: FlushIfStringLongEnough_def kMaxLengthBeforeFlush_def)
  qed
  from flush force show ?thesis by blast
qed

lemma failing_stream_env_encodes:
  "encodes_text failing_stream_env plain (\<lambda>es src. map ucast src)"
  unfolding encodes_text_def failing_stream_env_def low_byte_encoder_def Let_def
    kEncoderBufferSizeInBytes_def
  by (auto simp add: take_map [symmetric] drop_map [symmetric] simp del: take_map drop_map)




text \<open>
  A buffer of 5000 code units goes to an accepting sink in two chunks, of 4095 and 905
  bytes; a buffer of 1025 code units is truncated although the sink refuses the write.
\<close>

theorem TextStreamer_flush_contract_witness:
  "encodes_text accepting_stream_env (mIsPlainText huge_buffer_streamer) (\<lambda>es src. map ucast src) \<and>
   ForceFlush accepting_stream_env huge_buffer_streamer =
     Some (NS_OK, huge_buffer_streamer\<lparr>mStreamWrites := [replicate 4095 65, replicate 905 65],
                    mOutputBuffer := []\<rparr>) \<and>
   concat [replicate 4095 65, replicate 905 (65 :: byte)]
     = map ucast (mOutputBuffer huge_buffer_streamer) \<and>
   FlushIfStringLongEnough failing_stream_env long_buffer_streamer =
     Some (NS_ERROR_EXTERNAL 1,
           long_buffer_streamer\<lparr>mStreamWrites := [replicate 1025 65], mOutputBuffer := []\<rparr>)"
proof -
  have enc: "encodes_text accepting_stream_env (mIsPlainText huge_buffer_streamer)
      (\<lambda>es src. map ucast src)"
    by (rule low_byte_encoder_encodes)
  have loop2: "EncodeAndWrite_loop accepting_stream_env False (replicate 905 65) 0
      [replicate 4095 65] = Some (NS_OK, 0, [replicate 4095 65, replicate 905 65])"
    by (subst EncodeAndWrite_loop.simps)
       (simp add: kEncoderBufferSizeInBytes_def accepting_stream_env_def low_byte_encoder_def
          NS_FAILED_def)
  have loop1: "EncodeAndWrite_loop accepting_stream_env False (replicate 5000 65) 0 [] =
      Some (NS_OK, 0, [replicate 4095 65, replicate 905 65])"
    by (subst EncodeAndWrite_loop.simps)
       (simp add: kEncoderBufferSizeInBytes_def accepting_stream_env_def low_byte_encoder_def
          NS_FAILED_def loop2 [unfolded accepting_stream_env_def])
  have ev: "ForceFlush accepting_stream_env huge_buffer_streamer =
     Some (NS_OK, huge_buffer_streamer\<lparr>mStreamWrites := [replicate 4095 65, replicate 905 65],
                    mOutputBuffer := []\<rparr>)"
    by (simp add: ForceFlush_def EncodeAndWriteAndTruncate_def EncodeAndWrite_def
          loop1 huge_buffer_streamer_def)
  from TextStreamer_flush_contract [OF enc]
  obtain rv t' new where r: "ForceFlush accepting_stream_env huge_buffer_streamer = Some (rv, t')"
    and w: "mStreamWrites t' = mStreamWrites huge_buffer_streamer @ new"
    and e: "if NS_FAILED rv
             then rv = streamWrite accepting_stream_env (mStreamWrites t')
                  \<and> (\<exists>rest. map ucast (mOutputBuffer huge_buffer_streamer) = concat new @ rest)
             else mOutputBuffer huge_buffer_streamer \<noteq> []
                  \<longrightarrow> concat new = map ucast (mOutputBuffer huge_buffer_streamer)"
    by blast
  from ev r have rv: "rv = NS_OK"
    and t': "t' = huge_buffer_streamer\<lparr>mStreamWrites := [replicate 4095 65, replicate 905 65],
                    mOutputBuffer := []\<rparr>"
    by simp_all
  from w t' have new: "new = [replicate 4095 65, replicate 905 65]"
    by (simp add: huge_buffer_streamer_def)
  have ne: "mOutputBuffer huge_buffer_streamer \<noteq> []"
    by (simp add: huge_buffer_streamer_def)
  from e rv ne new have c: "concat [replicate 4095 65, replicate 905 (65 :: byte)]
      = map ucast (mOutputBuffer huge_buffer_streamer)"
    by (simp add: NS_FAILED_def)
  have loop: "EncodeAndWrite_loop failing_stream_env True (replicate 1025 65) 0 [] =
      Some (NS_ERROR_EXTERNAL 1, 0, [replicate 1025 65])"
    by (subst EncodeAndWrite_loop.simps)
      (simp add: kEncoderBufferSizeInBytes_def failing_stream_env_def low_byte_encoder_def
        NS_FAILED_def)
  have run: "FlushIfStringLongEnough failing_stream_env long_buffer_streamer =
     Some (NS_ERROR_EXTERNAL 1,
           long_buffer_streamer\<lparr>mStreamWrites := [replicate 1025 65], mOutputBuffer := []\<rparr>)"
    by (simp add: FlushIfStringLongEnough_def EncodeAndWriteAndTruncate_def EncodeAndWrite_def
        loop kMaxLengthBeforeFlush_def long_buffer_streamer_def)
  from enc ev c run show ?thesis by (simp only: simp_thms)
qed

section \<open>Frame lemmas: what the node serializer changes\<close>

lemma serializer_call_frame:
  "serializer_call E c s = (serializerAnswer E (serializerCalls s @ [c]),
      s\<lparr>serializerCalls := serializerCalls s @ [c]\<rparr>)"
  by (simp add: serializer_call_def Let_def)

lemma preformatScan_frame:
  "\<exists>cs. preformatScan E mk n s = s\<lparr>serializerCalls := serializerCalls s @ cs\<rparr>"
proof -
  have triv: "s = s\<lparr>serializerCalls := serializerCalls s @ []\<rparr>" by simp
  show ?thesis
    unfolding preformatScan_def serializer_call_frame
    by (auto split: option.splits intro: exI [of _ "[]"] triv)
qed


lemma SerializeNodeEnd_frame:
  "\<exists>cs. snd (SerializeNodeEnd E n f s) = s\<lparr>serializerCalls := serializerCalls s @ cs\<rparr>"
proof -
  obtain cs where p: "preformatScan E ForgetElementForPreformat n s = s\<lparr>serializerCalls := serializerCalls s @ cs\<rparr>"
    using preformatScan_frame by blast
  show ?thesis
    unfolding SerializeNodeEnd_def Let_def p serializer_call_frame
    by auto
qed

section \<open>Properties of the range walk\<close>

text \<open>
  C3. For a collapsed range that does not cross a shadow boundary, or when crossing
  shadow boundaries is not allowed, \<open>SerializeRangeToString\<close> returns \<open>NS_OK\<close>
  and leaves the whole state as it was: nothing is emitted.
\<close>

theorem collapsed_range_emits_nothing:
  assumes "Collapsed r"
    and "\<not> mAllowCrossShadowBoundary s \<or> \<not> MayCrossShadowBoundary r"
  shows "SerializeRangeToString E fuel (Some r) s = Some (Returns NS_OK s)"
  using assms by (simp add: SerializeRangeToString_def)

theorem collapsed_range_emits_nothing_witness:
  "Collapsed (demo_range 5 2 5 2) \<and>
   \<not> mAllowCrossShadowBoundary demo_encoder \<and>
   \<not> MayCrossShadowBoundary (demo_range 5 2 5 2) \<and>
   SerializeRangeToString demo_env 10 (Some (demo_range 5 2 5 2)) demo_encoder
     = Some (Returns NS_OK demo_encoder) \<and>
   serializerCalls demo_encoder = []"
proof -
  have c: "Collapsed (demo_range 5 2 5 2)"
    by (simp add: Collapsed_def demo_range_def)
  have a: "\<not> mAllowCrossShadowBoundary demo_encoder \<or> \<not> MayCrossShadowBoundary (demo_range 5 2 5 2)"
    by (simp add: demo_encoder_def)
  have b: "\<not> MayCrossShadowBoundary (demo_range 5 2 5 2)"
    by (simp add: MayCrossShadowBoundary_def demo_range_def)
  from collapsed_range_emits_nothing [OF c a, of demo_env 10] c b
  show ?thesis by (simp add: demo_encoder_def)
qed

section \<open>Properties of the range context stack\<close>


lemma SerializeNodeEnd_contexts [simp]:
  "mRangeContexts (snd (SerializeNodeEnd E n f s)) = mRangeContexts s"
proof -
  obtain cs where "snd (SerializeNodeEnd E n f s) = s\<lparr>serializerCalls := serializerCalls s @ cs\<rparr>"
    using SerializeNodeEnd_frame by blast
  then show ?thesis by simp
qed




lemma foldl_SerializeNodeEnd_contexts [simp]:
  "mRangeContexts (foldl (\<lambda>t n. snd (SerializeNodeEnd E n None t)) s xs) = mRangeContexts s"
  by (induction xs arbitrary: s) simp_all




section \<open>The output-length budget\<close>

lemma for_each_node_cong:
  "(\<And>c s. f c s = g c s) \<Longrightarrow> for_each_node xs f s = for_each_node xs g s"
  by (induction xs arbitrary: s) (simp_all add: ensure_success_def split: option.splits outcome.splits)

lemma serializer_call_GetOutputLength [simp]:
  "serializer_call (E\<lparr>GetOutputLength := g\<rparr>) = serializer_call E"
  by (simp add: fun_eq_iff serializer_call_def)

lemma preformatScan_GetOutputLength [simp]:
  "preformatScan (E\<lparr>GetOutputLength := g\<rparr>) = preformatScan E"
  by (simp add: fun_eq_iff preformatScan_def cong: if_cong option.case_cong node_type.case_cong prod.case_cong)

lemma FixupNodeDeterminer_GetOutputLength [simp]:
  "FixupNodeDeterminer (E\<lparr>GetOutputLength := g\<rparr>) = FixupNodeDeterminer E"
  by (simp add: fun_eq_iff FixupNodeDeterminer_def cong: option.case_cong)

lemma SerializeNodeStart_GetOutputLength [simp]:
  "SerializeNodeStart (E\<lparr>GetOutputLength := g\<rparr>) = SerializeNodeStart E"
  unfolding fun_eq_iff SerializeNodeStart_def
  by (simp add: Let_def cong: if_cong node_type.case_cong)

lemma SerializeNodeEnd_GetOutputLength [simp]:
  "SerializeNodeEnd (E\<lparr>GetOutputLength := g\<rparr>) = SerializeNodeEnd E"
  unfolding fun_eq_iff SerializeNodeEnd_def
  by (simp add: Let_def cong: if_cong)

lemma SelectionGetShadowRoot_GetOutputLength [simp]:
  "SelectionGetShadowRoot (E\<lparr>GetOutputLength := g\<rparr>) = SelectionGetShadowRoot E"
  by (simp add: fun_eq_iff SelectionGetShadowRoot_def)

lemma streamerFlush_GetOutputLength [simp]:
  "streamerFlushIfStringLongEnough (E\<lparr>GetOutputLength := g\<rparr>) = streamerFlushIfStringLongEnough E"
  by (simp add: fun_eq_iff streamerFlushIfStringLongEnough_def cong: if_cong option.case_cong node_type.case_cong prod.case_cong)




section \<open>Fully contained nodes\<close>

lemma ensure_success_return_ok [simp]:
  "ensure_success m (\<lambda>s1. Some (Returns NS_OK s1)) = m"
  by (auto simp: ensure_success_def NS_FAILED_def split: option.splits outcome.splits)

text \<open>
  C1. For a content node that, at its depth, is neither the inclusive ancestor of the
  start boundary nor the one of the end boundary, \<open>SerializeRangeNodes\<close> leaves
  exactly the state (and so the output) that \<open>SerializeToStringRecursive\<close> leaves
  for the node alone with its root included; the two calls are equal whenever the
  serializer reports its output length.
\<close>

theorem fully_contained_node_serialized_whole:
  assumes "IsContent (tree E) n"
    and "GetStartAndEndContentForRecursionLevel s d = Some (st, en)"
    and "st \<noteq> Some n" and "en \<noteq> Some n"
  shows "finalState (SerializeRangeNodes E fuel r (Some n) d s)
           = finalState (SerializeToStringRecursive E fuel (Some n) True 0 s) \<and>
         (fst (GetOutputLength E (serializerCalls s)) = NS_OK \<longrightarrow>
            SerializeRangeNodes E fuel r (Some n) d s
              = SerializeToStringRecursive E fuel (Some n) True 0 s)"
proof (cases fuel)
  case 0
  then show ?thesis by simp
next
  case (Suc f)
  show ?thesis
  proof (cases "IsInvisibleNodeAndShouldBeSkipped (tree E) n (mFlags s)")
    case True
    then have rec: "SerializeToStringRecursive E (Suc f) (Some n) True 0 s =
        (if NS_FAILED (fst (GetOutputLength E (serializerCalls s)))
         then Some (Returns (fst (GetOutputLength E (serializerCalls s))) s)
         else Some (Returns NS_OK s))"
      by (simp add: split_def)
    have rn: "SerializeRangeNodes E (Suc f) r (Some n) d s = Some (Returns NS_OK s)"
      using True assms by (simp add: FromNodeOrNull_def)
    show ?thesis
      unfolding Suc rec rn by (simp add: finalState_def NS_FAILED_def)
  next
    case False
    have "SerializeRangeNodes E (Suc f) r (Some n) d s
        = SerializeToStringRecursive E (Suc f) (Some n) True 0 s"
      using False assms by (simp add: FromNodeOrNull_def del: SerializeToStringRecursive.simps)
    then show ?thesis unfolding Suc by simp
  qed
qed

theorem fully_contained_node_serialized_whole_witness:
  "IsContent (tree demo_env) 4 \<and>
   GetStartAndEndContentForRecursionLevel demo_walk_state 1 = Some (Some 3, Some 6) \<and>
   Some 3 \<noteq> Some (4::nat) \<and> Some 6 \<noteq> Some (4::nat) \<and>
   fst (GetOutputLength demo_env (serializerCalls demo_walk_state)) = NS_OK \<and>
   SerializeRangeNodes demo_env 10 (demo_range 3 2 6 1) (Some 4) 1 demo_walk_state
     = SerializeToStringRecursive demo_env 10 (Some 4) True 0 demo_walk_state \<and>
   finalState (SerializeRangeNodes demo_env 10 (demo_range 3 2 6 1) (Some 4) 1 demo_walk_state)
     = Some (demo_walk_state\<lparr>serializerCalls :=
               [AppendElementStart 4 4, AppendText 5 0 (- 1), AppendElementEnd 4 4]\<rparr>)"
proof -
  have a: "IsContent (tree demo_env) 4" by code_simp
  have b: "GetStartAndEndContentForRecursionLevel demo_walk_state 1 = Some (Some 3, Some 6)"
    by code_simp
  have c: "Some 3 \<noteq> Some (4::nat)" and d: "Some 6 \<noteq> Some (4::nat)" by simp_all
  have e: "fst (GetOutputLength demo_env (serializerCalls demo_walk_state)) = NS_OK"
    by code_simp
  have f: "finalState (SerializeToStringRecursive demo_env 10 (Some 4) True 0 demo_walk_state)
     = Some (demo_walk_state\<lparr>serializerCalls :=
               [AppendElementStart 4 4, AppendText 5 0 (- 1), AppendElementEnd 4 4]\<rparr>)"
    by code_simp
  from fully_contained_node_serialized_whole [OF a b c d, of 10 "demo_range 3 2 6 1"] e
  have g: "SerializeRangeNodes demo_env 10 (demo_range 3 2 6 1) (Some 4) 1 demo_walk_state
     = SerializeToStringRecursive demo_env 10 (Some 4) True 0 demo_walk_state"
    by blast
  from a b c d e f g show ?thesis by simp
qed

section \<open>The dispatch on the encoding scope\<close>

text \<open>
  C8, as the code has it. \<open>SerializeDependingOnScope\<close> takes the selection walk for
  a selection, \<open>SerializeRangeToString\<close> for a range, the \<open>NodeSerializer\<close> for a
  node, and for no scope the walk of the whole document, whose first call on the
  serializer is the document start; it clears the scope afterwards. For a node it takes
  the iterative walk if and only if no fixup hook is installed, invisible content is
  not skipped, no text streamer is active and the node was set as a container;
  otherwise the recursive walk, which includes the root unless the node is a container.
\<close>

theorem scope_dispatch:
  "SerializeDependingOnScope E fuel aMaxLength s =
     map_option (\<lambda>out. case out of
                         Crashes \<Rightarrow> Crashes
                       | Returns rv s1 \<Rightarrow> Returns rv (s1\<lparr>mEncodingScope := emptyScope\<rparr>))
       (if mSelection (mEncodingScope s) \<noteq> None then SerializeSelection E fuel s
        else if mRange (mEncodingScope s) \<noteq> None
        then SerializeRangeToString E fuel (mRange (mEncodingScope s)) s
        else
          (case mNode (mEncodingScope s) of
             Some n \<Rightarrow>
               if \<not> mNodeFixup s \<and> SkipInvisibleContent \<notin> mFlags s \<and> mTextStreamer s = None
                  \<and> mNodeIsContainer (mEncodingScope s)
               then SerializeToStringIterative E fuel n s
               else SerializeToStringRecursive E fuel (Some n)
                      (\<not> mNodeIsContainer (mEncodingScope s)) 0 s
           | None \<Rightarrow>
               (case serializer_call E (AppendDocumentStart (mDocument s)) s of
                  (rv, s1) \<Rightarrow>
                    if NS_FAILED rv then Some (Returns rv s1)
                    else SerializeToStringRecursive E fuel (mDocument s) True aMaxLength s1)))"
  by (auto simp: SerializeDependingOnScope_def SerializeNode_def SerializeWholeDocument_def
      ensure_success_def returns_def split: option.splits outcome.splits prod.splits)

text \<open>
  The claim without the container condition fails: for the node \<open>b\<close> set with
  \<open>SetNode\<close>, with no fixup hook, no skipping and no streamer, the encoder walks
  recursively and emits the tags of \<open>b\<close>, which the iterative walk does not.
\<close>

theorem node_scope_iterative_counterexample:
  "\<not> (\<forall>E fuel s n.
        mNode (mEncodingScope s) = Some n \<and> mSelection (mEncodingScope s) = None
        \<and> mRange (mEncodingScope s) = None
        \<and> \<not> mNodeFixup s \<and> SkipInvisibleContent \<notin> mFlags s \<and> mTextStreamer s = None
        \<longrightarrow> SerializeNode E fuel s = SerializeToStringIterative E fuel n s)"
proof
  assume all: "\<forall>E fuel s n.
        mNode (mEncodingScope s) = Some n \<and> mSelection (mEncodingScope s) = None
        \<and> mRange (mEncodingScope s) = None
        \<and> \<not> mNodeFixup s \<and> SkipInvisibleContent \<notin> mFlags s \<and> mTextStreamer s = None
        \<longrightarrow> SerializeNode E fuel s = SerializeToStringIterative E fuel n s"
  have pre: "mNode (mEncodingScope (node_scope_encoder 4 False)) = Some 4
      \<and> mSelection (mEncodingScope (node_scope_encoder 4 False)) = None
      \<and> mRange (mEncodingScope (node_scope_encoder 4 False)) = None
      \<and> \<not> mNodeFixup (node_scope_encoder 4 False)
      \<and> SkipInvisibleContent \<notin> mFlags (node_scope_encoder 4 False)
      \<and> mTextStreamer (node_scope_encoder 4 False) = None"
    by (simp add: node_scope_encoder_def demo_encoder_def emptyScope_def)
  from all pre have eq: "SerializeNode demo_env 10 (node_scope_encoder 4 False)
      = SerializeToStringIterative demo_env 10 4 (node_scope_encoder 4 False)"
    by blast
  have l: "map_option serializerCalls (finalState (SerializeNode demo_env 10 (node_scope_encoder 4 False)))
      = Some [AppendElementStart 4 4, AppendText 5 0 (- 1), AppendElementEnd 4 4]"
    by code_simp
  have r: "map_option serializerCalls
      (finalState (SerializeToStringIterative demo_env 10 4 (node_scope_encoder 4 False)))
      = Some [AppendText 5 0 (- 1)]"
    by code_simp
  from eq l r show False by simp
qed

theorem scope_dispatch_witness:
  "map_option serializerCalls
     (finalState (SerializeDependingOnScope demo_env 10 0 (node_scope_encoder 4 True)))
     = Some [AppendText 5 0 (- 1)] \<and>
   map_option serializerCalls
     (finalState (SerializeDependingOnScope demo_env 10 0 (node_scope_encoder 4 False)))
     = Some [AppendElementStart 4 4, AppendText 5 0 (- 1), AppendElementEnd 4 4] \<and>
   map_option (\<lambda>s. hd (serializerCalls s))
     (finalState (SerializeDependingOnScope demo_env 10 0 demo_encoder))
     = Some (AppendDocumentStart (Some 0))"
proof -
  have a: "map_option serializerCalls
     (finalState (SerializeDependingOnScope demo_env 10 0 (node_scope_encoder 4 True)))
     = Some [AppendText 5 0 (- 1)]"
    unfolding scope_dispatch by code_simp
  have b: "map_option serializerCalls
     (finalState (SerializeDependingOnScope demo_env 10 0 (node_scope_encoder 4 False)))
     = Some [AppendElementStart 4 4, AppendText 5 0 (- 1), AppendElementEnd 4 4]"
    unfolding scope_dispatch by code_simp
  have c: "map_option (\<lambda>s. hd (serializerCalls s))
     (finalState (SerializeDependingOnScope demo_env 10 0 demo_encoder))
     = Some (AppendDocumentStart (Some 0))"
    unfolding scope_dispatch by code_simp
  from a b c show ?thesis by blast
qed

section \<open>The selection walk\<close>

lemma SerializeNodeEnd_depth [simp]:
  "mContextInfoDepthStart (snd (SerializeNodeEnd E n f s)) = mContextInfoDepthStart s"
proof -
  obtain cs where "snd (SerializeNodeEnd E n f s) = s\<lparr>serializerCalls := serializerCalls s @ cs\<rparr>"
    using SerializeNodeEnd_frame by blast
  then show ?thesis by simp
qed

lemma contextEndLoop_depth [simp]:
  "mContextInfoDepthStart (snd (contextEndLoop E xs s)) = mContextInfoDepthStart s"
proof (induction xs arbitrary: s)
  case Nil
  show ?case by simp
next
  case (Cons n xs)
  have "mContextInfoDepthStart (snd (SerializeNodeEnd E n None s)) = mContextInfoDepthStart s"
    by simp
  then show ?case
    using Cons.IH [of "snd (SerializeNodeEnd E n None s)"]
    by (simp add: split_def Let_def)
qed

lemma SerializeRangeContextEnd_depth:
  "SerializeRangeContextEnd E s = Returns rv s' \<Longrightarrow>
     mContextInfoDepthStart s' = mContextInfoDepthStart s"
  by (auto simp: SerializeRangeContextEnd_def split_def Let_def split: if_splits)

lemma SerializeSelection_finish_depth:
  "SerializeSelection_finish E prevNode d s = Returns rv s' \<Longrightarrow> mContextInfoDepthStart s' = d"
proof (cases prevNode)
  case None
  assume "SerializeSelection_finish E prevNode d s = Returns rv s'"
  with None show ?thesis
    by (auto simp: SerializeSelection_finish_def)
next
  case (Some p)
  assume r: "SerializeSelection_finish E prevNode d s = Returns rv s'"
  let ?s0 = "s\<lparr>mContextInfoDepthStart := d\<rparr>"
  let ?s1 = "snd (SerializeNodeEnd E p None ?s0)"
  have d1: "mContextInfoDepthStart ?s1 = d" by simp
  show ?thesis
  proof (cases "NS_FAILED (fst (SerializeNodeEnd E p None ?s0))")
    case True
    with r Some d1 show ?thesis
      by (auto simp: SerializeSelection_finish_def split_def Let_def)
  next
    case False
    let ?s2 = "?s1\<lparr>mDisableContextSerialize := False,
                    mCommonInclusiveAncestors := GetInclusiveAncestors E (GetParentNode (tree E) p)\<rparr>"
    have d2: "mContextInfoDepthStart ?s2 = d" using d1 by simp
    from r Some False obtain rv2 s2 where
      e: "SerializeRangeContextEnd E ?s2 = Returns rv2 s2"
      and s': "s' = s2 \<or> s' = s2\<lparr>mDisableContextSerialize := False\<rparr>"
      by (auto simp: SerializeSelection_finish_def split_def Let_def
          split: outcome.splits if_splits)
    from SerializeRangeContextEnd_depth [OF e] d2 have "mContextInfoDepthStart s2 = d" by simp
    with s' show ?thesis by auto
  qed
qed

lemma SerializeSelection_body_keeps_first:
  "SerializeSelection_body E fuel r (Suc i) prevNode d s = Some (GoOn s1 p1 d1) \<Longrightarrow> d1 = d"
  by (auto simp: SerializeSelection_body_def split: option.splits prod.splits outcome.splits
      if_splits)

lemma SerializeSelection_body_first:
  "SerializeSelection_body E fuel r 0 prevNode d s = Some (GoOn s1 p1 d1)
     \<Longrightarrow> d1 = mContextInfoDepthStart s1"
  by (auto simp: SerializeSelection_body_def split: option.splits prod.splits outcome.splits
      if_splits)

lemma SerializeSelection_body_leaves_failed:
  "SerializeSelection_body E fuel r i prevNode d s = Some (Leave (Returns rv s1)) \<Longrightarrow> NS_FAILED rv"
  by (auto simp: SerializeSelection_body_def NS_FAILED_def split: option.splits prod.splits
      outcome.splits if_splits)

lemma SerializeSelection_loop_depth:
  "SerializeSelection_loop E fuel rs (Suc i) prevNode d s = Some (Returns NS_OK s')
     \<Longrightarrow> mContextInfoDepthStart s' = d"
proof (induction rs arbitrary: i prevNode s)
  case Nil
  then show ?case by (simp add: SerializeSelection_finish_depth)
next
  case (Cons r rs)
  show ?case
  proof (cases "SerializeSelection_body E fuel r (Suc i) prevNode d s")
    case None
    with Cons.prems show ?thesis by simp
  next
    case (Some step)
    show ?thesis
    proof (cases step)
      case (Leave out)
      with Some Cons.prems have "SerializeSelection_body E fuel r (Suc i) prevNode d s
          = Some (Leave (Returns NS_OK s'))" by simp
      from SerializeSelection_body_leaves_failed [OF this] show ?thesis
        by (simp add: NS_FAILED_def)
    next
      case (GoOn s1 p1 d1)
      with Some SerializeSelection_body_keeps_first have "d1 = d" by blast
      with GoOn Some Cons.prems Cons.IH show ?thesis by simp
    qed
  qed
qed

text \<open>
  C7. When \<open>SerializeSelection\<close> returns \<open>NS_OK\<close> for a selection of at least one
  range, the start depth of the context information it leaves is the one found right
  after the first range was serialized, whatever the later ranges computed.
\<close>

theorem first_range_depth_is_reported:
  assumes "mSelection (mEncodingScope s) = Some (r # rs)"
    and "SerializeSelection E fuel s = Some (Returns NS_OK s')"
  shows "\<exists>s1 prevNode1.
           SerializeSelection_body E fuel r 0 None 0 s
             = Some (GoOn s1 prevNode1 (mContextInfoDepthStart s1)) \<and>
           SerializeSelection_loop E fuel rs 1 prevNode1 (mContextInfoDepthStart s1) s1
             = Some (Returns NS_OK s') \<and>
           mContextInfoDepthStart s' = mContextInfoDepthStart s1"
proof -
  from assms have loop: "SerializeSelection_loop E fuel (r # rs) 0 None 0 s = Some (Returns NS_OK s')"
    by (simp add: SerializeSelection_def)
  show ?thesis
  proof (cases "SerializeSelection_body E fuel r 0 None 0 s")
    case None
    with loop show ?thesis by simp
  next
    case (Some step)
    show ?thesis
    proof (cases step)
      case (Leave out)
      with Some loop have "SerializeSelection_body E fuel r 0 None 0 s
          = Some (Leave (Returns NS_OK s'))" by simp
      from SerializeSelection_body_leaves_failed [OF this] show ?thesis
        by (simp add: NS_FAILED_def)
    next
      case (GoOn s1 p1 d1)
      with Some SerializeSelection_body_first have d1: "d1 = mContextInfoDepthStart s1" by blast
      from GoOn Some loop have rest: "SerializeSelection_loop E fuel rs (Suc 0) p1 d1 s1
          = Some (Returns NS_OK s')" by simp
      from SerializeSelection_loop_depth [OF rest] have "mContextInfoDepthStart s' = d1" .
      with d1 rest GoOn Some show ?thesis by simp
    qed
  qed
qed

theorem first_range_depth_is_reported_witness:
  "mSelection (mEncodingScope selection_encoder)
     = Some (demo_range 5 1 6 1 # [demo_range 3 1 3 3]) \<and>
   (\<exists>s'. SerializeSelection demo_env 10 selection_encoder = Some (Returns NS_OK s') \<and>
         mContextInfoDepthStart s' = 1 \<and>
         (\<exists>s1 prevNode1.
            SerializeSelection_body demo_env 10 (demo_range 5 1 6 1) 0 None 0 selection_encoder
              = Some (GoOn s1 prevNode1 (mContextInfoDepthStart s1)) \<and>
            mContextInfoDepthStart s' = mContextInfoDepthStart s1)) \<and>
   map_option mContextInfoDepthStart
     (finalState (SerializeRangeToString demo_env 10 (Some (demo_range 3 1 3 3)) selection_encoder))
     = Some 0"
proof -
  have sel: "mSelection (mEncodingScope selection_encoder)
     = Some (demo_range 5 1 6 1 # [demo_range 3 1 3 3])"
    by (simp add: selection_encoder_def emptyScope_def)
  have run: "(case SerializeSelection demo_env 10 selection_encoder of
               Some (Returns rv s') \<Rightarrow> rv = NS_OK \<and> mContextInfoDepthStart s' = 1
             | _ \<Rightarrow> False)"
    by code_simp
  then obtain s' where r: "SerializeSelection demo_env 10 selection_encoder = Some (Returns NS_OK s')"
    and d: "mContextInfoDepthStart s' = 1"
    by (auto split: option.splits outcome.splits)
  have second: "map_option mContextInfoDepthStart
     (finalState (SerializeRangeToString demo_env 10 (Some (demo_range 3 1 3 3)) selection_encoder))
     = Some 0"
    by code_simp
  from first_range_depth_is_reported [OF sel r]
  obtain s1 prevNode1 where
    "SerializeSelection_body demo_env 10 (demo_range 5 1 6 1) 0 None 0 selection_encoder
       = Some (GoOn s1 prevNode1 (mContextInfoDepthStart s1))"
    and "mContextInfoDepthStart s' = mContextInfoDepthStart s1"
    by blast
  with sel r d second show ?thesis by blast
qed

section \<open>EncodeToStream\<close>

text \<open>
  C4 at a failing input. The serializer fails on the start tag of \<open>p\<close> while the
  whole document is encoded: \<open>EncodeToString\<close>, called as \<open>EncodeToStream\<close> calls
  it, returns that failure and an empty string, yet \<open>EncodeToStream\<close> returns
  \<open>NS_OK\<close>, the result of the final \<open>ForceFlush\<close>, having written nothing.
\<close>

theorem EncodeToStream_masks_failure:
  "(case EncodeToString failing_serializer_env 10 [] streaming_encoder of
      Some (Returns rv s, buf) \<Rightarrow> rv = NS_ERROR_EXTERNAL 7 \<and> buf = []
    | _ \<Rightarrow> False) \<and>
   (case EncodeToStream failing_serializer_env 10 (Some []) demo_encoder of
      Some (Returns rv s) \<Rightarrow> rv = NS_OK \<and> mTextStreamer s = None
    | _ \<Rightarrow> False)"
  by code_simp

section \<open>A range inside one text node\<close>


lemma emittedText_append [simp]:
  "emittedText D (xs @ ys) = emittedText D xs @ emittedText D ys"
  by (simp add: emittedText_def)



















section \<open>Range promotion\<close>



text \<open>
  A parent lookup that fails at the start of a text node is one of the errors of the
  promotion: the container has no parent, or is not content.
\<close>

lemma parent_lookup_failure_at_text_start:
  assumes "mIsPositioned inRange"
    and "mCrossShadowBoundaryRange inRange = None"
    and "\<not> GetTreeKindIsFlat s"
    and "boundaryContainer (mStart inRange) = Some c"
    and "IsText (tree E) c"
    and "IsStartOfContainer (mStart inRange)"
    and "GetClosestCommonInclusiveAncestor E inRange True \<noteq> Some c"
    and "GetParentPoint (tree E) (mStart inRange) = Err e"
  shows "PromoteRange_points E s fuel inRange = Some (Err NS_ERROR_FAILURE)"
  using assms
  by (simp add: PromoteRange_points_def MayCrossShadowBoundaryStartRef_def
        GetPromotedStartPoint_def GetPromotedStartPoint_entry_def Let_def)




end
